theory Spec2Isabelle
  imports Complex_Main
begin

section \<open>The data model of \<open>types.ts\<close>\<close>

text \<open>
  The three interfaces of \<open>types.ts\<close>, field by field. A field of type
  \<open>string | null\<close> is a \<open>string option\<close>, an optional field (\<open>next?\<close>,
  the members of \<open>risk_factors\<close>) is an option too. The field \<open>_id\<close> is written
  \<open>id_\<close> and the field \<open>_links\<close> is written \<open>links\<close>. Where
  \<open>Contract\<close> and \<open>FlaggedContract\<close> share a field name, the unqualified name
  is the one of \<open>FlaggedContract\<close>.
\<close>

record Contract =
  id_ :: int
  reference_number :: string
  procurement_id :: string
  vendor_name :: string
  vendor_postal_code :: "string option"
  buyer_name :: "string option"
  contract_date :: string
  economic_object_code :: string
  description_en :: string
  description_fr :: string
  contract_period_start :: string
  delivery_date :: string
  contract_value :: string
  original_value :: string
  amendment_value :: string
  comments_en :: "string option"
  commodity_type :: string
  commodity_code :: string
  country_of_vendor :: string
  solicitation_procedure :: string
  limited_tendering_reason :: string
  trade_agreement_exceptions :: string
  indigenous_business :: "string option"
  former_public_servant :: string
  number_of_bids :: "string option"
  article_6_exceptions :: "string option"
  standing_offer_number :: "string option"
  instrument_type :: string
  ministers_office :: string

record ApiLinks =
  "next" :: "string option"

record ApiResult =
  records :: "Contract list"
  total :: int
  links :: ApiLinks

record ApiResponse =
  success :: bool
  result :: ApiResult

datatype risk_level = high | medium | low

record risk_factors =
  procurement_issues :: "string list option"
  financial_issues :: "string list option"
  conflict_of_interest :: "string list option"
  timeline_issues :: "string list option"
  public_interest_factors :: "string list option"

record FlaggedContract =
  contract_id :: string
  vendor_name :: string
  "value" :: string
  description :: string
  original_value :: string
  amendment_value :: string
  start_date :: string
  end_date :: string
  number_of_bids :: "string option"
  procurement_type :: string
  reason_for_flag :: string
  risk_level :: risk_level
  risk_factors :: risk_factors

section \<open>The constants of \<open>ContractAnalyzer\<close>\<close>

definition BATCH_SIZE :: nat where
  "BATCH_SIZE = 100"

definition MIN_CONTRACT_VALUE :: rat where
  "MIN_CONTRACT_VALUE = 50000"

definition MAX_RETRIES :: nat where
  "MAX_RETRIES = 3"

definition RATE_LIMIT_DELAY :: nat where
  "RATE_LIMIT_DELAY = 1000"

section \<open>Numbers: what \<open>parseFloat\<close> returns\<close>

text \<open>
  A JavaScript number is an IEEE 754 double: not a number, an infinity, or a finite
  value, which is a rational. The only operation the analyzer applies to a parsed
  value is the comparison \<open>value >= MIN_CONTRACT_VALUE\<close>, false whenever the left
  side is \<open>NaN\<close>.
\<close>

datatype number = NaN | Finite rat | PosInfinity | NegInfinity

fun js_ge :: "number \<Rightarrow> rat \<Rightarrow> bool" where
  "js_ge NaN y = False"
| "js_ge (Finite x) y = (y \<le> x)"
| "js_ge PosInfinity y = True"
| "js_ge NegInfinity y = False"

fun js_neg :: "number \<Rightarrow> number" where
  "js_neg NaN = NaN"
| "js_neg (Finite x) = Finite (- x)"
| "js_neg PosInfinity = NegInfinity"
| "js_neg NegInfinity = PosInfinity"

text \<open>
  Rounding of a non-negative rational to the nearest double, ties to even: the value
  is scaled by the unit in the last place of its binade (53 significant bits, the
  exponent never below that of the subnormals), rounded to an integer and scaled
  back; a result of \<open>2 ^ 1024\<close> or more is the infinity.
\<close>

fun log2_nat :: "nat \<Rightarrow> nat" where
  "log2_nat n = (if n < 2 then 0 else Suc (log2_nat (n div 2)))"

declare log2_nat.simps [simp del]

definition pow2 :: "int \<Rightarrow> rat" where
  "pow2 e = (if 0 \<le> e then 2 ^ nat e else 1 / 2 ^ nat (- e))"

definition floor_log2 :: "rat \<Rightarrow> int" where
  "floor_log2 x =
     (if 1 \<le> x then int (log2_nat (nat \<lfloor>x\<rfloor>))
      else (let y = 1 / x; j = log2_nat (nat \<lfloor>y\<rfloor>)
            in if y = 2 ^ j then - int j else - int j - 1))"

definition round_half_even :: "rat \<Rightarrow> int" where
  "round_half_even x =
     (let f = \<lfloor>x\<rfloor>; r = x - of_int f
      in if r < 1 / 2 then f
         else if 1 / 2 < r then f + 1
         else if even f then f else f + 1)"

definition to_double :: "rat \<Rightarrow> number" where
  "to_double x =
     (if x = 0 then Finite 0
      else (let e = max (floor_log2 x) (- 1022);
                ulp = pow2 (e - 52);
                r = of_int (round_half_even (x / ulp)) * ulp
            in if 2 ^ 1024 \<le> r then PosInfinity else Finite r))"

section \<open>\<open>parseContractValue\<close>\<close>

text \<open>
  \<^verbatim>\<open>return parseFloat(value.replace(/[^0-9.-]+/g, ""));\<close>

  The replacement deletes every character that is not a digit, a decimal point or a
  minus sign. \<open>parseFloat\<close> then reads the longest prefix that is a decimal
  literal and returns \<open>NaN\<close> when there is none. It is modelled on the strings the
  replacement can produce, where a literal is an optional minus sign followed by
  digits with an optional point and further digits, or by a point and at least one
  digit (no white space, plus sign, exponent or \<open>Infinity\<close> is left to read).
\<close>

definition is_digit :: "char \<Rightarrow> bool" where
  "is_digit c = (c \<in> set ''0123456789'')"

definition digit_val :: "char \<Rightarrow> nat" where
  "digit_val c = of_char c - 48"

definition digits_val :: "string \<Rightarrow> nat" where
  "digits_val ds = foldl (\<lambda>a c. 10 * a + digit_val c) 0 ds"

definition strip_non_numeric :: "string \<Rightarrow> string" where
  "strip_non_numeric v = filter (\<lambda>c. is_digit c \<or> c = CHR ''.'' \<or> c = CHR ''-'') v"

definition parse_unsigned :: "string \<Rightarrow> number" where
  "parse_unsigned s =
     (let ip = takeWhile is_digit s;
          rest = dropWhile is_digit s;
          fp = (case rest of
                  [] \<Rightarrow> []
                | c # t \<Rightarrow> if c = CHR ''.'' then takeWhile is_digit t else [])
      in if ip = [] \<and> fp = [] then NaN
         else to_double (of_nat (digits_val ip) + of_nat (digits_val fp) / 10 ^ length fp))"

definition parseFloat :: "string \<Rightarrow> number" where
  "parseFloat s =
     (case s of
        [] \<Rightarrow> NaN
      | c # t \<Rightarrow> if c = CHR ''-'' then js_neg (parse_unsigned t) else parse_unsigned s)"

definition parseContractValue :: "string \<Rightarrow> number" where
  "parseContractValue v = parseFloat (strip_non_numeric v)"

section \<open>\<open>filterHighValueContracts\<close>\<close>

text \<open>
  \<^verbatim>\<open>return contracts.filter(contract => {
    const value = this.parseContractValue(contract.contract_value);
    const isHighValue = value >= this.MIN_CONTRACT_VALUE;
    const isNew = !this.processedIds.has(contract.procurement_id);
    return isHighValue && isNew; });\<close>

  The set \<open>processedIds\<close> is read, not written: it is an argument.
\<close>

definition isHighValue :: "Contract \<Rightarrow> bool" where
  "isHighValue contract = js_ge (parseContractValue (contract_value contract)) MIN_CONTRACT_VALUE"

definition isNew :: "string set \<Rightarrow> Contract \<Rightarrow> bool" where
  "isNew ids contract = (procurement_id contract \<notin> ids)"

definition filterHighValueContracts :: "string set \<Rightarrow> Contract list \<Rightarrow> Contract list" where
  "filterHighValueContracts ids contracts =
     filter (\<lambda>contract. isHighValue contract \<and> isNew ids contract) contracts"

section \<open>The world outside the analyzer\<close>

text \<open>
  Values that are thrown: by \<open>fetch\<close> (the request fails), by the check of
  \<open>response.ok\<close> (with the status), by \<open>response.json()\<close>, by \<open>readFile\<close> and
  \<open>appendFile\<close>, by \<open>JSON.parse\<close> on a line of the log or on the content of a
  completion, and by the OpenAI client.
\<close>

datatype error =
    NetworkError
  | HttpError nat
  | BodySyntaxError
  | FileNotFound
  | LineSyntaxError
  | AppendFileError
  | OpenAIError
  | ContentSyntaxError

text \<open>
  The durable log \<open>flagged_contracts.ndjson\<close> is kept as the list of its lines. A
  line is the text \<open>JSON.stringify\<close> gives for a flagged contract, which
  \<open>JSON.parse\<close> reads back as that contract and which holds no line break, or it is
  text that \<open>JSON.parse\<close> rejects. Both functions belong to the runtime and are
  taken at this level. The interface \<open>FlaggedContract\<close> is taken as declared: every
  record has a string \<open>contract_id\<close>.
\<close>

datatype line = Rec FlaggedContract | Garbage

definition JSON_stringify :: "FlaggedContract \<Rightarrow> line" where
  "JSON_stringify contract = Rec contract"

fun JSON_parse :: "line \<Rightarrow> error + FlaggedContract" where
  "JSON_parse (Rec contract) = Inr contract"
| "JSON_parse Garbage = Inl LineSyntaxError"

text \<open>
  One attempt of the page request, as the world answers it: \<open>fetch\<close> rejects; the
  response is not \<open>ok\<close> (with its status); the response is \<open>ok\<close> and the promise
  of \<open>response.json()\<close> rejects; or the body is an \<open>ApiResponse\<close>.
\<close>

datatype fetch_outcome =
    FetchRejects
  | ResponseNotOk nat
  | BodyRejects
  | Body ApiResponse

text \<open>
  One call of \<open>openai.chat.completions.create\<close>: the call rejects; the first choice
  has no content (absent, \<open>null\<close> or the empty string); the content is text that
  \<open>JSON.parse\<close> rejects (or the text \<open>null\<close>, on whose value the access to
  \<open>contracts\<close> throws); or the content parses, to an object whose \<open>contracts\<close>
  is absent or falsy (\<open>None\<close>) or an array of flagged contracts. The declared type
  \<open>FlaggedContract[]\<close> is taken as it stands: an answer whose \<open>contracts\<close> is
  neither absent nor an array of such records is outside the model.
\<close>

datatype completion =
    CreateRejects
  | NoContent
  | Unparsable
  | Contracts "FlaggedContract list option"

text \<open>
  The world answers the \<open>k\<close>-th page request (for the offset asked), the \<open>k\<close>-th
  completion request (for the contracts sent) and says whether the \<open>k\<close>-th
  \<open>appendFile\<close> succeeds. Calls are counted from 0 in the state.
\<close>

record world =
  fetch :: "nat \<Rightarrow> nat \<Rightarrow> fetch_outcome"
  create :: "nat \<Rightarrow> Contract list \<Rightarrow> completion"
  appendFile_succeeds :: "nat \<Rightarrow> bool"

text \<open>What the analyzer does that can be observed, in the order it happens.\<close>

datatype event =
    Request nat
  | Sleep nat
  | Create "Contract list"
  | AppendFile "line list"
  | LogLoaded nat
  | LogStartingFresh
  | LogRetry nat error
  | LogAnalyzing nat string
  | LogOpenAIRetry nat error
  | LogErrorAnalyzing error
  | LogStarting nat
  | LogMinimumValue
  | LogProcessingBatch nat nat
  | LogNoMore
  | LogBatchResults nat nat nat nat
  | LogRunningTotals nat nat nat
  | LogNoNewHighValue nat
  | LogErrorProcessing nat error
  | LogLastSuccessfulOffset nat
  | LogUseThisOffset
  | LogComplete nat nat nat

text \<open>
  The state: the log file (\<open>None\<close> while it does not exist), the field
  \<open>processedIds\<close>, the events so far and the number of calls made to the world.
\<close>

record state =
  log_file :: "line list option"
  processedIds :: "string set"
  trace :: "event list"
  fetch_calls :: nat
  create_calls :: nat
  append_calls :: nat

definition emit :: "event list \<Rightarrow> state \<Rightarrow> state" where
  "emit evs st = st\<lparr>trace := trace st @ evs\<rparr>"

text \<open>What a \<open>try\<close> block does with one attempt: it returns, it throws into its own
  \<open>catch\<close>, or a rejection passes the \<open>catch\<close> by.\<close>

datatype 'a attempt = Returned 'a | Caught error | Escaped error

section \<open>\<open>loadProcessedIds\<close>\<close>

text \<open>
  \<^verbatim>\<open>try {
    const content = await readFile(this.OUTPUT_FILE, 'utf-8');
    const lines = content.trim().split('\n');
    for (const line of lines) {
      const contract = JSON.parse(line);
      this.processedIds.add(contract.contract_id); }
    console.log(`Loaded ...`);
  } catch (error) { console.log('Starting fresh analysis ...'); }\<close>

  \<open>readFile\<close> rejects when the file does not exist. \<open>trim\<close> removes the white
  space at both ends of the content, the final line break among it, so the lines of the
  file are those of the list; the content of an empty file splits into the single line
  \<open>""\<close>, which \<open>JSON.parse\<close> rejects. The loop adds to the set in place, so what it
  added before a throw stays.
\<close>

definition readFile :: "state \<Rightarrow> error + line list" where
  "readFile st = (case log_file st of None \<Rightarrow> Inl FileNotFound | Some content \<Rightarrow> Inr content)"

definition split_lines :: "line list \<Rightarrow> line list" where
  "split_lines content = (if content = [] then [Garbage] else content)"

fun load_lines :: "line list \<Rightarrow> string set \<Rightarrow> (error + unit) \<times> string set" where
  "load_lines [] ids = (Inr (), ids)"
| "load_lines (l # ls) ids =
     (case JSON_parse l of
        Inl e \<Rightarrow> (Inl e, ids)
      | Inr contract \<Rightarrow> load_lines ls (insert (contract_id contract) ids))"

definition loadProcessedIds :: "state \<Rightarrow> state" where
  "loadProcessedIds st =
     (case readFile st of
        Inl e \<Rightarrow> emit [LogStartingFresh] st
      | Inr content \<Rightarrow>
          (case load_lines (split_lines content) (processedIds st) of
             (Inl e, ids) \<Rightarrow> emit [LogStartingFresh] (st\<lparr>processedIds := ids\<rparr>)
           | (Inr u, ids) \<Rightarrow> emit [LogLoaded (card ids)] (st\<lparr>processedIds := ids\<rparr>)))"

section \<open>\<open>getContractsWithRetry\<close>\<close>

text \<open>
  \<^verbatim>\<open>try {
    ... const response = await fetch(url);
    if (!response.ok) { throw new Error(`HTTP error! status: ...`); }
    return response.json();
  } catch (error) {
    if (retries < this.MAX_RETRIES) {
      console.log(`Retry ${retries + 1}/...`, error);
      await new Promise(resolve => setTimeout(resolve, this.RATE_LIMIT_DELAY * (retries + 1)));
      return this.getContractsWithRetry(offset, retries + 1); }
    throw error; }\<close>

  The promise of \<open>response.json()\<close> is returned without \<open>await\<close>: when it
  rejects, the function has left the \<open>try\<close> block and the rejection goes to the
  caller, with no retry.
\<close>

fun try_fetch :: "fetch_outcome \<Rightarrow> ApiResponse attempt" where
  "try_fetch FetchRejects = Caught NetworkError"
| "try_fetch (ResponseNotOk status) = Caught (HttpError status)"
| "try_fetch BodyRejects = Escaped BodySyntaxError"
| "try_fetch (Body data) = Returned data"

function getContractsWithRetry ::
  "world \<Rightarrow> nat \<Rightarrow> nat \<Rightarrow> state \<Rightarrow> (error + ApiResponse) \<times> state" where
  "getContractsWithRetry w offset retries st =
     (let st1 = emit [Request offset] (st\<lparr>fetch_calls := Suc (fetch_calls st)\<rparr>)
      in case try_fetch (fetch w (fetch_calls st) offset) of
           Returned data \<Rightarrow> (Inr data, st1)
         | Escaped e \<Rightarrow> (Inl e, st1)
         | Caught e \<Rightarrow>
             if retries < MAX_RETRIES
             then getContractsWithRetry w offset (retries + 1)
                    (emit [LogRetry (retries + 1) e, Sleep (RATE_LIMIT_DELAY * (retries + 1))] st1)
             else (Inl e, st1))"
  by pat_completeness auto
termination
  by (relation "measure (\<lambda>(w, offset, retries, st). MAX_RETRIES - retries)") auto

declare getContractsWithRetry.simps [simp del]

section \<open>\<open>appendFlaggedContracts\<close>\<close>

text \<open>
  \<^verbatim>\<open>const ndjsonLines = contracts.map(contract => JSON.stringify(contract)).join('\n');
  if (ndjsonLines) {
    await appendFile(this.OUTPUT_FILE, ndjsonLines + '\n');
    contracts.forEach(contract => this.processedIds.add(contract.contract_id)); }\<close>

  The joined text is the empty string, which is falsy, exactly when there is no line
  (the text of a record is never empty). \<open>appendFile\<close> creates the file when it does
  not exist; when it rejects, the file is taken to be as before.
\<close>

definition appendFile :: "world \<Rightarrow> line list \<Rightarrow> state \<Rightarrow> (error + unit) \<times> state" where
  "appendFile w ls st =
     (let st1 = emit [AppendFile ls] (st\<lparr>append_calls := Suc (append_calls st)\<rparr>)
      in if appendFile_succeeds w (append_calls st)
         then (Inr (), st1\<lparr>log_file := Some ((case log_file st of None \<Rightarrow> [] | Some old \<Rightarrow> old) @ ls)\<rparr>)
         else (Inl AppendFileError, st1))"

definition appendFlaggedContracts ::
  "world \<Rightarrow> FlaggedContract list \<Rightarrow> state \<Rightarrow> (error + unit) \<times> state" where
  "appendFlaggedContracts w contracts st =
     (let ndjsonLines = map JSON_stringify contracts
      in if ndjsonLines \<noteq> []
         then (case appendFile w ndjsonLines st of
                 (Inl e, st1) \<Rightarrow> (Inl e, st1)
               | (Inr u, st1) \<Rightarrow>
                   (Inr (), st1\<lparr>processedIds :=
                      fold (\<lambda>contract ids. insert (contract_id contract) ids) contracts (processedIds st1)\<rparr>))
         else (Inr (), st))"

section \<open>\<open>analyzeContractsWithGPT\<close>\<close>

text \<open>
  No rejection passes this \<open>catch\<close> by (every promise is awaited inside the
  \<open>try\<close> block), so the branch for \<open>Escaped\<close> is never taken.

  \<^verbatim>\<open>try {
    const firstId = contracts[0]?.procurement_id ?? 'unknown';
    console.log(`Analyzing ...`);
    const response = await this.openai.chat.completions.create({...});
    const content = response.choices[0]?.message?.content;
    if (!content) return [];
    const parsed = JSON.parse(content);
    return parsed.contracts || [];
  } catch (error) {
    if (retries < this.MAX_RETRIES) {
      console.log(`Retry ${retries + 1}/...`, error);
      await new Promise(resolve => setTimeout(resolve, this.RATE_LIMIT_DELAY * (retries + 1)));
      return this.analyzeContractsWithGPT(contracts, retries + 1); }
    console.error('Error analyzing contracts:', error);
    return []; }\<close>
\<close>

fun try_completion :: "completion \<Rightarrow> FlaggedContract list attempt" where
  "try_completion CreateRejects = Caught OpenAIError"
| "try_completion NoContent = Returned []"
| "try_completion Unparsable = Caught ContentSyntaxError"
| "try_completion (Contracts None) = Returned []"
| "try_completion (Contracts (Some flagged)) = Returned flagged"

definition firstId :: "Contract list \<Rightarrow> string" where
  "firstId contracts = (case contracts of [] \<Rightarrow> ''unknown'' | c # cs \<Rightarrow> procurement_id c)"

function analyzeContractsWithGPT ::
  "world \<Rightarrow> Contract list \<Rightarrow> nat \<Rightarrow> state \<Rightarrow> FlaggedContract list \<times> state" where
  "analyzeContractsWithGPT w contracts retries st =
     (let st1 = emit [LogAnalyzing (length contracts) (firstId contracts), Create contracts]
                  (st\<lparr>create_calls := Suc (create_calls st)\<rparr>)
      in case try_completion (create w (create_calls st) contracts) of
           Returned flagged \<Rightarrow> (flagged, st1)
         | Escaped e \<Rightarrow> ([], st1)
         | Caught e \<Rightarrow>
             if retries < MAX_RETRIES
             then analyzeContractsWithGPT w contracts (retries + 1)
                    (emit [LogOpenAIRetry (retries + 1) e, Sleep (RATE_LIMIT_DELAY * (retries + 1))] st1)
             else ([], emit [LogErrorAnalyzing e] st1))"
  by pat_completeness auto
termination
  by (relation "measure (\<lambda>(w, contracts, retries, st). MAX_RETRIES - retries)") auto

declare analyzeContractsWithGPT.simps [simp del]

section \<open>\<open>analyze\<close>\<close>

text \<open>The local variables of \<open>analyze\<close>. Offsets and totals are natural numbers:
  the numbers of the source stay far below the range in which a double is no longer
  exact.\<close>

record run =
  offset :: nat
  totalContracts :: nat
  totalHighValue :: nat
  totalFlagged :: nat
  batchNumber :: nat

text \<open>How one turn of \<open>while (true)\<close> ends: an error is thrown, the loop is left by
  \<open>break\<close>, or the next turn starts with the updated variables.\<close>

datatype iteration = Thrown error | Break | Continue run

text \<open>
  The \<open>try\<close> block from the test of the page on:

  \<^verbatim>\<open>if (!data.success || !data.result.records.length) { console.log(...); break; }
  const allContracts = data.result.records;
  const highValueContracts = this.filterHighValueContracts(allContracts);
  if (highValueContracts.length > 0) {
    const flagged = await this.analyzeContractsWithGPT(highValueContracts);
    if (flagged.length > 0) { await this.appendFlaggedContracts(flagged); }
    totalContracts += allContracts.length;
    totalHighValue += highValueContracts.length;
    totalFlagged += flagged.length;
    console.log(...);
  } else { console.log(`No new high-value contracts in batch ...`); }
  offset += this.BATCH_SIZE;
  batchNumber++;
  await new Promise(resolve => setTimeout(resolve, this.RATE_LIMIT_DELAY));\<close>
\<close>

definition next_batch :: "run \<Rightarrow> run" where
  "next_batch r = r\<lparr>offset := offset r + BATCH_SIZE, batchNumber := batchNumber r + 1\<rparr>"

definition analyze_page :: "world \<Rightarrow> run \<Rightarrow> ApiResponse \<Rightarrow> state \<Rightarrow> iteration \<times> state" where
  "analyze_page w r data st =
     (if \<not> success data \<or> length (records (result data)) = 0
      then (Break, emit [LogNoMore] st)
      else
        (let allContracts = records (result data);
             highValueContracts = filterHighValueContracts (processedIds st) allContracts
         in if length highValueContracts > 0
            then
              (case analyzeContractsWithGPT w highValueContracts 0 st of
                 (flagged, st1) \<Rightarrow>
                   (case (if length flagged > 0 then appendFlaggedContracts w flagged st1
                          else (Inr (), st1)) of
                      (Inl e, st2) \<Rightarrow> (Thrown e, st2)
                    | (Inr u, st2) \<Rightarrow>
                        (let r1 = r\<lparr>totalContracts := totalContracts r + length allContracts,
                                      totalHighValue := totalHighValue r + length highValueContracts,
                                      totalFlagged := totalFlagged r + length flagged\<rparr>
                         in (Continue (next_batch r1),
                             emit [LogBatchResults (batchNumber r) (length allContracts)
                                     (length highValueContracts) (length flagged),
                                   LogRunningTotals (totalContracts r1) (totalHighValue r1)
                                     (totalFlagged r1),
                                   Sleep RATE_LIMIT_DELAY] st2))))
            else (Continue (next_batch r),
                  emit [LogNoNewHighValue (batchNumber r), Sleep RATE_LIMIT_DELAY] st)))"

text \<open>
  The whole \<open>try\<close> block, from the request of the page:

  \<^verbatim>\<open>console.log(`\nProcessing batch ${batchNumber} (offset: ${offset})...`);
  const data = await this.getContractsWithRetry(offset);\<close>
\<close>

definition analyze_try :: "world \<Rightarrow> run \<Rightarrow> state \<Rightarrow> iteration \<times> state" where
  "analyze_try w r st =
     (case getContractsWithRetry w (offset r) 0
             (emit [LogProcessingBatch (batchNumber r) (offset r)] st) of
        (Inl e, st1) \<Rightarrow> (Thrown e, st1)
      | (Inr data, st1) \<Rightarrow> analyze_page w r data st1)"

text \<open>
  One turn of the loop, with its \<open>catch\<close>:

  \<^verbatim>\<open>catch (error) {
    console.error(`\nError processing batch ${batchNumber}:`, error);
    console.log('Last successful offset:', offset);
    console.log('Use this offset to resume the analysis');
    throw error; }\<close>
\<close>

definition analyze_iteration :: "world \<Rightarrow> run \<Rightarrow> state \<Rightarrow> iteration \<times> state" where
  "analyze_iteration w r st =
     (case analyze_try w r st of
        (Thrown e, st1) \<Rightarrow>
          (Thrown e, emit [LogErrorProcessing (batchNumber r) e,
                           LogLastSuccessfulOffset (offset r),
                           LogUseThisOffset] st1)
      | (Break, st1) \<Rightarrow> (Break, st1)
      | (Continue r', st1) \<Rightarrow> (Continue r', st1))"

text \<open>
  \<open>while (true)\<close> may run for ever (a world that always has a further page), so the
  loop takes a bound on the number of its turns: \<open>None\<close> says that the bound was
  reached before the loop ended.
\<close>

fun analyze_loop :: "nat \<Rightarrow> world \<Rightarrow> run \<Rightarrow> state \<Rightarrow> ((error + run) \<times> state) option" where
  "analyze_loop 0 w r st = None"
| "analyze_loop (Suc fuel) w r st =
     (case analyze_iteration w r st of
        (Thrown e, st1) \<Rightarrow> Some (Inl e, st1)
      | (Break, st1) \<Rightarrow> Some (Inr r, st1)
      | (Continue r', st1) \<Rightarrow> analyze_loop fuel w r' st1)"

text \<open>
  \<^verbatim>\<open>let offset = startOffset; let totalContracts = 0; let totalHighValue = 0;
  let totalFlagged = 0; let batchNumber = 1;
  await this.loadProcessedIds();
  console.log(`Starting analysis from offset ${startOffset}`); ...
  while (true) { ... }
  console.log(`\nAnalysis Complete!`); ...\<close>
\<close>

definition initial_run :: "nat \<Rightarrow> run" where
  "initial_run startOffset =
     \<lparr>offset = startOffset, totalContracts = 0, totalHighValue = 0, totalFlagged = 0,
      batchNumber = 1\<rparr>"

definition analyze :: "nat \<Rightarrow> world \<Rightarrow> nat \<Rightarrow> state \<Rightarrow> ((error + run) \<times> state) option" where
  "analyze fuel w startOffset st =
     (let r = initial_run startOffset;
          st1 = emit [LogStarting startOffset, LogMinimumValue] (loadProcessedIds st)
      in case analyze_loop fuel w r st1 of
           None \<Rightarrow> None
         | Some (Inl e, st2) \<Rightarrow> Some (Inl e, st2)
         | Some (Inr r', st2) \<Rightarrow>
             Some (Inr r', emit [LogComplete (totalContracts r') (totalHighValue r')
                                   (totalFlagged r')] st2))"

text \<open>A process that has just started: the log file as it is on disk, nothing in
  memory.\<close>

definition fresh_process :: "line list option \<Rightarrow> state" where
  "fresh_process f = \<lparr>log_file = f, processedIds = {}, trace = [], fetch_calls = 0,
                        create_calls = 0, append_calls = 0\<rparr>"

section \<open>Example data\<close>

text \<open>Concrete records, pages and worlds on which the theorems below are run.\<close>

definition example_contract :: "string \<Rightarrow> string \<Rightarrow> Contract" where
  "example_contract pid v =
     \<lparr>id_ = 1, reference_number = ''C-2024-0001'', procurement_id = pid,
      Contract.vendor_name = ''Acme Consulting Inc.'', vendor_postal_code = None,
      buyer_name = None, contract_date = ''2024-01-15'', economic_object_code = ''0491'',
      description_en = ''Management consulting'', description_fr = ''Conseils en gestion'',
      contract_period_start = ''2024-02-01'', delivery_date = ''2024-12-31'',
      contract_value = v, Contract.original_value = v, Contract.amendment_value = ''$0.00'',
      comments_en = None, commodity_type = ''S'', commodity_code = ''R019'',
      country_of_vendor = ''CA'', solicitation_procedure = ''TN'',
      limited_tendering_reason = ''00'', trade_agreement_exceptions = ''00'',
      indigenous_business = None, former_public_servant = ''N'',
      Contract.number_of_bids = Some ''1'', article_6_exceptions = None,
      standing_offer_number = None, instrument_type = ''C'', ministers_office = ''N''\<rparr>"

definition example_flagged :: "string \<Rightarrow> FlaggedContract" where
  "example_flagged cid =
     \<lparr>contract_id = cid, vendor_name = ''Acme Consulting Inc.'', value = ''$50,000.00'',
      description = ''Management consulting'', original_value = ''$50,000.00'',
      amendment_value = ''$0.00'', start_date = ''2024-02-01'', end_date = ''2024-12-31'',
      number_of_bids = Some ''1'', procurement_type = ''Professional services'',
      reason_for_flag = ''Single bid'', risk_level = high,
      risk_factors = \<lparr>procurement_issues = Some [''Single bid''], financial_issues = None,
                        conflict_of_interest = None, timeline_issues = None,
                        public_interest_factors = None\<rparr>\<rparr>"

definition example_page :: "Contract list \<Rightarrow> ApiResponse" where
  "example_page cs =
     \<lparr>success = True,
      result = \<lparr>records = cs, total = int (length cs), links = \<lparr>next = None\<rparr>\<rparr>\<rparr>"

text \<open>A source with nothing in it, a classifier that answers without content, a disk
  that works.\<close>

definition quiet_world :: world where
  "quiet_world =
     \<lparr>fetch = (\<lambda>k off. Body (example_page [])),
      create = (\<lambda>k cs. NoContent),
      appendFile_succeeds = (\<lambda>k. True)\<rparr>"

text \<open>A disk on which every append fails.\<close>

definition full_disk_world :: world where
  "full_disk_world = quiet_world\<lparr>appendFile_succeeds := (\<lambda>k. False)\<rparr>"

text \<open>A source of a single page, served at offset 0; every other offset is past its
  end.\<close>

definition one_page_source :: "Contract list \<Rightarrow> nat \<Rightarrow> ApiResponse" where
  "one_page_source cs off = example_page (if off = 0 then cs else [])"

text \<open>The first request is refused by the network, the second is answered with status
  503, every later one is served.\<close>

definition flaky_world :: world where
  "flaky_world =
     quiet_world\<lparr>fetch := (\<lambda>k off.
        if k = 0 then FetchRejects
        else if k = 1 then ResponseNotOk 503
        else Body (one_page_source [example_contract ''PW-24-0001'' ''$50,000.00''] off))\<rparr>"

text \<open>No request is ever served.\<close>

definition offline_world :: world where
  "offline_world = quiet_world\<lparr>fetch := (\<lambda>k off. FetchRejects)\<rparr>"

text \<open>A classifier that flags two contracts whatever it is sent.\<close>

definition eager_world :: world where
  "eager_world =
     quiet_world\<lparr>create := (\<lambda>k cs.
        Contracts (Some [example_flagged ''PW-24-0001'', example_flagged ''PW-24-0002'']))\<rparr>"

text \<open>A source of one page holding one high-value contract, a classifier that flags
  it under its own identifier, a disk that works.\<close>

definition sample_world :: world where
  "sample_world =
     \<lparr>fetch = (\<lambda>k off.
        Body (one_page_source [example_contract ''PW-24-0001'' ''$50,000.00''] off)),
      create = (\<lambda>k cs. Contracts (Some [example_flagged ''PW-24-0001''])),
      appendFile_succeeds = (\<lambda>k. True)\<rparr>"

text \<open>The same, with a classifier whose first answer is not JSON.\<close>

definition garbled_once_world :: world where
  "garbled_once_world =
     sample_world\<lparr>create := (\<lambda>k cs.
        if k = 0 then Unparsable else Contracts (Some [example_flagged ''PW-24-0001'']))\<rparr>"

text \<open>The same, with a classifier that never answers usefully: its calls reject or
  return text that is not JSON, in turn.\<close>

definition broken_classifier_world :: world where
  "broken_classifier_world =
     sample_world\<lparr>create := (\<lambda>k cs. if even k then CreateRejects else Unparsable)\<rparr>"

text \<open>The same, with a classifier that flags the contract under another identifier.\<close>

definition relabelling_world :: world where
  "relabelling_world =
     sample_world\<lparr>create := (\<lambda>k cs. Contracts (Some [example_flagged ''2024-0001'']))\<rparr>"

text \<open>The same, on a disk where every append fails.\<close>

definition failing_disk_world :: world where
  "failing_disk_world = sample_world\<lparr>appendFile_succeeds := (\<lambda>k. False)\<rparr>"

text \<open>A source of one page holding one contract below the threshold.\<close>

definition low_value_world :: world where
  "low_value_world =
     sample_world\<lparr>fetch := (\<lambda>k off.
        Body (one_page_source [example_contract ''PW-24-0003'' ''$49,999.99''] off))\<rparr>"

text \<open>A source whose first answer has status 502 and whose later answers are served
  as \<open>ok\<close> with a body that is not JSON.\<close>

definition html_body_world :: world where
  "html_body_world =
     sample_world\<lparr>fetch := (\<lambda>k off. if k = 0 then ResponseNotOk 502 else BodyRejects)\<rparr>"

text \<open>A source of one page holding two high-value contracts, and a classifier that
  judges each contract it is sent on its own: it flags the one numbered
  \<open>PW-24-0001\<close>, under its own identifier, and no other.\<close>

definition partial_world :: world where
  "partial_world =
     \<lparr>fetch = (\<lambda>k off.
        Body (one_page_source [example_contract ''PW-24-0001'' ''$50,000.00'',
                               example_contract ''PW-24-0002'' ''$50,000.00''] off)),
      create = (\<lambda>k cs.
        Contracts (Some (map (\<lambda>c. example_flagged (procurement_id c))
                           (filter (\<lambda>c. procurement_id c = ''PW-24-0001'') cs)))),
      appendFile_succeeds = (\<lambda>k. True)\<rparr>"

section \<open>Notions used to state the properties\<close>

text \<open>The records of the log that precede its first unreadable line.\<close>

fun readable_prefix :: "line list \<Rightarrow> FlaggedContract list" where
  "readable_prefix [] = []"
| "readable_prefix (Rec contract # ls) = contract # readable_prefix ls"
| "readable_prefix (Garbage # ls) = []"

text \<open>The identifiers a start of the process finds in the log file.\<close>

definition loaded_ids :: "line list option \<Rightarrow> string set" where
  "loaded_ids f =
     (case f of None \<Rightarrow> {} | Some content \<Rightarrow> contract_id ` set (readable_prefix content))"



section \<open>Properties\<close>

lemma floor_rat_numeral_divide:
  "\<lfloor>numeral a / numeral b :: rat\<rfloor> = numeral a div numeral b"
  by (metis floor_divide_of_int_eq of_int_numeral)

lemma strip_49999_99: "strip_non_numeric ''$49,999.99'' = ''49999.99''"
  by (simp add: strip_non_numeric_def is_digit_def)

lemma strip_50000_00: "strip_non_numeric ''$50,000.00'' = ''50000.00''"
  by (simp add: strip_non_numeric_def is_digit_def)

lemma parse_unsigned_49999_99: "parse_unsigned ''49999.99'' = to_double (4999999 / 100)"
  by (simp add: parse_unsigned_def is_digit_def digits_val_def digit_val_def)

lemma parse_unsigned_50000_00: "parse_unsigned ''50000.00'' = to_double 50000"
  by (simp add: parse_unsigned_def is_digit_def digits_val_def digit_val_def)

lemma floor_log2_49999_99: "floor_log2 (4999999 / 100) = 15"
  by (simp add: floor_log2_def floor_rat_numeral_divide log2_nat.simps)

lemma floor_log2_50000: "floor_log2 50000 = 15"
  by (simp add: floor_log2_def log2_nat.simps)

lemma to_double_49999_99:
  "to_double (4999999 / 100) = Finite (6871946299210465 / 137438953472)"
  by (simp add: to_double_def floor_log2_49999_99 pow2_def round_half_even_def Let_def
      floor_rat_numeral_divide)

lemma to_double_50000: "to_double 50000 = Finite 50000"
  by (simp add: to_double_def floor_log2_50000 pow2_def round_half_even_def Let_def)

lemma parse_49999_99:
  "parseContractValue ''$49,999.99'' = Finite (6871946299210465 / 137438953472)"
  by (simp add: parseContractValue_def strip_49999_99 parseFloat_def parse_unsigned_49999_99
      to_double_49999_99)

lemma parse_50000_00: "parseContractValue ''$50,000.00'' = Finite 50000"
  by (simp add: parseContractValue_def strip_50000_00 parseFloat_def parse_unsigned_50000_00
      to_double_50000)


text \<open>The parsed value is the nearest double: a value of eighteen nines, less than 50000
  by less than half a unit in the last place, parses to 50000.\<close>

lemma strip_nines: "strip_non_numeric ''$49,999.999999999999'' = ''49999.999999999999''"
  by (simp add: strip_non_numeric_def is_digit_def)

lemma parse_unsigned_nines:
  "parse_unsigned ''49999.999999999999'' = to_double (49999999999999999 / 1000000000000)"
  by (simp add: parse_unsigned_def is_digit_def digits_val_def digit_val_def)

lemma floor_log2_nines: "floor_log2 (49999999999999999 / 1000000000000) = 15"
  by (simp add: floor_log2_def floor_rat_numeral_divide log2_nat.simps)

lemma to_double_nines: "to_double (49999999999999999 / 1000000000000) = Finite 50000"
  by (simp add: to_double_def floor_log2_nines pow2_def round_half_even_def Let_def
      floor_rat_numeral_divide)

lemma parse_nines: "parseContractValue ''$49,999.999999999999'' = Finite 50000"
  by (simp add: parseContractValue_def strip_nines parseFloat_def parse_unsigned_nines
      to_double_nines)



lemma example_contract_sel [simp]:
  "procurement_id (example_contract pid v) = pid"
  "contract_value (example_contract pid v) = v"
  by (simp_all add: example_contract_def)

lemma example_contract_eq [simp]:
  "example_contract pid v = example_contract pid' v' \<longleftrightarrow> pid = pid' \<and> v = v'"
  by (auto simp: example_contract_def)


lemma emit_simps [simp]:
  "log_file (emit evs st) = log_file st"
  "processedIds (emit evs st) = processedIds st"
  "trace (emit evs st) = trace st @ evs"
  "fetch_calls (emit evs st) = fetch_calls st"
  "create_calls (emit evs st) = create_calls st"
  "append_calls (emit evs st) = append_calls st"
  by (simp_all add: emit_def)

lemma fold_insert_ids:
  "fold (\<lambda>contract ids. insert (contract_id contract) ids) contracts S
     = S \<union> contract_id ` set contracts"
  by (induction contracts arbitrary: S) auto

lemma appendFlaggedContracts_empty: "appendFlaggedContracts w [] st = (Inr (), st)"
  by (simp add: appendFlaggedContracts_def)

lemma appendFlaggedContracts_ok:
  assumes "contracts \<noteq> []" "appendFile_succeeds w (append_calls st)"
  shows "appendFlaggedContracts w contracts st =
           (Inr (), (emit [AppendFile (map JSON_stringify contracts)] st)
              \<lparr>append_calls := Suc (append_calls st),
               log_file := Some ((case log_file st of None \<Rightarrow> [] | Some old \<Rightarrow> old)
                                   @ map JSON_stringify contracts),
               processedIds := processedIds st \<union> contract_id ` set contracts\<rparr>)"
  using assms
  by (simp add: appendFlaggedContracts_def appendFile_def Let_def fold_insert_ids emit_def)

lemma appendFlaggedContracts_fails:
  assumes "contracts \<noteq> []" "\<not> appendFile_succeeds w (append_calls st)"
  shows "appendFlaggedContracts w contracts st =
           (Inl AppendFileError, (emit [AppendFile (map JSON_stringify contracts)] st)
              \<lparr>append_calls := Suc (append_calls st)\<rparr>)"
  using assms
  by (simp add: appendFlaggedContracts_def appendFile_def Let_def emit_def)

text \<open>
  Claim C1. \<open>appendFlaggedContracts\<close> on an empty sequence returns with the state
  as it was: no call of \<open>appendFile\<close>, no change of the set. On a non-empty sequence
  it appends one line per result, in order, the line being the text of the result;
  when the append succeeds the set gains the \<open>contract_id\<close> of every result, and
  when the append fails the error is thrown with the set as it was.
\<close>
theorem append_then_mark:
  "(contracts = [] \<longrightarrow> appendFlaggedContracts w contracts st = (Inr (), st))
   \<and> (contracts \<noteq> [] \<and> appendFile_succeeds w (append_calls st) \<longrightarrow>
        (\<exists>st'. appendFlaggedContracts w contracts st = (Inr (), st')
           \<and> log_file st' = Some ((case log_file st of None \<Rightarrow> [] | Some old \<Rightarrow> old)
                                    @ map JSON_stringify contracts)
           \<and> length (map JSON_stringify contracts) = length contracts
           \<and> processedIds st' = processedIds st \<union> contract_id ` set contracts))
   \<and> (contracts \<noteq> [] \<and> \<not> appendFile_succeeds w (append_calls st) \<longrightarrow>
        (\<exists>st'. appendFlaggedContracts w contracts st = (Inl AppendFileError, st')
           \<and> processedIds st' = processedIds st))"
proof (intro conjI impI)
  assume "contracts = []"
  then show "appendFlaggedContracts w contracts st = (Inr (), st)"
    by (simp add: appendFlaggedContracts_empty)
next
  assume a: "contracts \<noteq> [] \<and> appendFile_succeeds w (append_calls st)"
  show "\<exists>st'. appendFlaggedContracts w contracts st = (Inr (), st')
           \<and> log_file st' = Some ((case log_file st of None \<Rightarrow> [] | Some old \<Rightarrow> old)
                                    @ map JSON_stringify contracts)
           \<and> length (map JSON_stringify contracts) = length contracts
           \<and> processedIds st' = processedIds st \<union> contract_id ` set contracts"
    using a by (simp add: appendFlaggedContracts_ok)
next
  assume a: "contracts \<noteq> [] \<and> \<not> appendFile_succeeds w (append_calls st)"
  show "\<exists>st'. appendFlaggedContracts w contracts st = (Inl AppendFileError, st')
           \<and> processedIds st' = processedIds st"
    using a by (simp add: appendFlaggedContracts_fails)
qed

lemma example_flagged_sel [simp]: "contract_id (example_flagged cid) = cid"
  by (simp add: example_flagged_def)

lemma example_flagged_eq [simp]: "example_flagged a = example_flagged b \<longleftrightarrow> a = b"
  by (auto simp: example_flagged_def)

lemma fresh_process_simps [simp]:
  "log_file (fresh_process f) = f"
  "processedIds (fresh_process f) = {}"
  "trace (fresh_process f) = []"
  "fetch_calls (fresh_process f) = 0"
  "create_calls (fresh_process f) = 0"
  "append_calls (fresh_process f) = 0"
  by (simp_all add: fresh_process_def)

lemma quiet_world_simps [simp]:
  "fetch quiet_world k off = Body (example_page [])"
  "create quiet_world k cs = NoContent"
  "appendFile_succeeds quiet_world k"
  by (simp_all add: quiet_world_def)

lemma full_disk_world_simps [simp]:
  "fetch full_disk_world = fetch quiet_world"
  "create full_disk_world = create quiet_world"
  "\<not> appendFile_succeeds full_disk_world k"
  by (simp_all add: full_disk_world_def)

theorem append_then_mark_witness:
  "appendFlaggedContracts quiet_world [] (fresh_process None) = (Inr (), fresh_process None)
   \<and> (\<exists>st'. appendFlaggedContracts quiet_world
               [example_flagged ''PW-24-0001'', example_flagged ''PW-24-0002'']
               (fresh_process (Some [Rec (example_flagged ''PW-23-0009'')]))
             = (Inr (), st')
         \<and> log_file st' = Some [Rec (example_flagged ''PW-23-0009''),
                                Rec (example_flagged ''PW-24-0001''),
                                Rec (example_flagged ''PW-24-0002'')]
         \<and> processedIds st' = {''PW-24-0001'', ''PW-24-0002''})
   \<and> (\<exists>st'. appendFlaggedContracts full_disk_world [example_flagged ''PW-24-0001'']
               (fresh_process None)
             = (Inl AppendFileError, st')
         \<and> processedIds st' = {})"
  using append_then_mark [of "[]" quiet_world "fresh_process None"]
    append_then_mark [of "[example_flagged ''PW-24-0001'', example_flagged ''PW-24-0002'']"
      quiet_world "fresh_process (Some [Rec (example_flagged ''PW-23-0009'')])"]
    append_then_mark [of "[example_flagged ''PW-24-0001'']" full_disk_world "fresh_process None"]
  by (simp add: JSON_stringify_def insert_commute)


lemma load_lines_ids:
  "snd (load_lines ls ids) = ids \<union> contract_id ` set (readable_prefix ls)"
proof (induction ls arbitrary: ids)
  case Nil
  show ?case by simp
next
  case (Cons l ls)
  show ?case by (cases l) (simp_all add: Cons.IH)
qed

lemma readable_prefix_split_lines:
  "readable_prefix (split_lines content) = readable_prefix content"
  by (simp add: split_lines_def)

lemma readable_prefix_records: "readable_prefix (map Rec cs) = cs"
  by (induction cs) simp_all

lemma readable_prefix_corrupt: "readable_prefix (map Rec pre @ Garbage # post) = pre"
  by (induction pre) simp_all

lemma loadProcessedIds_ids:
  "processedIds (loadProcessedIds st) = processedIds st \<union> loaded_ids (log_file st)"
proof (cases "log_file st")
  case None
  then show ?thesis by (simp add: loadProcessedIds_def readFile_def loaded_ids_def)
next
  case (Some content)
  obtain res ids where l: "load_lines (split_lines content) (processedIds st) = (res, ids)"
    by (cases "load_lines (split_lines content) (processedIds st)")
  have "ids = processedIds st \<union> contract_id ` set (readable_prefix content)"
    using load_lines_ids [of "split_lines content" "processedIds st"] l
    by (simp add: readable_prefix_split_lines)
  then show ?thesis
    using Some l by (cases res) (simp_all add: loadProcessedIds_def readFile_def loaded_ids_def)
qed

lemma loadProcessedIds_frame:
  "log_file (loadProcessedIds st) = log_file st"
  "fetch_calls (loadProcessedIds st) = fetch_calls st"
  "create_calls (loadProcessedIds st) = create_calls st"
  "append_calls (loadProcessedIds st) = append_calls st"
  by (simp_all add: loadProcessedIds_def readFile_def split: option.splits sum.splits prod.splits)

text \<open>
  Claim C7, as the code has it. \<open>loadProcessedIds\<close> never throws and leaves the file
  alone, but its single \<open>try\<close> block encloses the whole loop: the first line that
  \<open>JSON.parse\<close> rejects ends the load. The set gains the \<open>contract_id\<close> of every
  record before that line and of none after it; a log without such a line is loaded
  whole.
\<close>

theorem load_stops_at_corrupt_line:
  "log_file (loadProcessedIds st) = log_file st
   \<and> (log_file st = None \<longrightarrow> processedIds (loadProcessedIds st) = processedIds st)
   \<and> (log_file st = Some (map Rec cs) \<longrightarrow>
        processedIds (loadProcessedIds st) = processedIds st \<union> contract_id ` set cs)
   \<and> (log_file st = Some (map Rec pre @ Garbage # post) \<longrightarrow>
        processedIds (loadProcessedIds st) = processedIds st \<union> contract_id ` set pre)"
  by (simp add: loadProcessedIds_ids loadProcessedIds_frame loaded_ids_def
      readable_prefix_records readable_prefix_corrupt)

theorem load_stops_at_corrupt_line_witness:
  "processedIds (loadProcessedIds (fresh_process None)) = {}
   \<and> processedIds (loadProcessedIds (fresh_process
        (Some [Rec (example_flagged ''PW-24-0001''), Rec (example_flagged ''PW-24-0002'')])))
       = {''PW-24-0001'', ''PW-24-0002''}
   \<and> processedIds (loadProcessedIds (fresh_process
        (Some [Rec (example_flagged ''PW-24-0001''), Garbage,
               Rec (example_flagged ''PW-24-0002'')])))
       = {''PW-24-0001''}"
  using load_stops_at_corrupt_line [of "fresh_process None" "[]" "[]" "[]"]
    load_stops_at_corrupt_line [of "fresh_process
        (Some [Rec (example_flagged ''PW-24-0001''), Rec (example_flagged ''PW-24-0002'')])"
        "[example_flagged ''PW-24-0001'', example_flagged ''PW-24-0002'']" "[]" "[]"]
    load_stops_at_corrupt_line [of "fresh_process
        (Some [Rec (example_flagged ''PW-24-0001''), Garbage,
               Rec (example_flagged ''PW-24-0002'')])"
        "[]" "[example_flagged ''PW-24-0001'']" "[Rec (example_flagged ''PW-24-0002'')]"]
  by (simp add: insert_commute)

text \<open>
  Claim C7 as stated fails: in a log of three lines whose second line is unreadable,
  the third line is a well-formed record, and its identifier is not in the set after
  the load.
\<close>

theorem load_skips_corrupt_line_counterexample:
  "Rec (example_flagged ''PW-24-0002'')
     \<in> set [Rec (example_flagged ''PW-24-0001''), Garbage, Rec (example_flagged ''PW-24-0002'')]
   \<and> contract_id (example_flagged ''PW-24-0002'')
     \<notin> processedIds (loadProcessedIds (fresh_process
          (Some [Rec (example_flagged ''PW-24-0001''), Garbage,
                 Rec (example_flagged ''PW-24-0002'')])))"
  by (simp add: loadProcessedIds_ids loaded_ids_def)

lemma filterHighValueContracts_mem:
  "contract \<in> set (filterHighValueContracts ids contracts) \<longleftrightarrow>
     contract \<in> set contracts \<and> isHighValue contract \<and> procurement_id contract \<notin> ids"
  by (auto simp: filterHighValueContracts_def isNew_def)

lemma appendFlaggedContracts_ids:
  assumes "appendFlaggedContracts w flagged st = (Inr u, st')"
  shows "processedIds st' = processedIds st \<union> contract_id ` set flagged"
proof (cases "flagged = []")
  case True
  with assms show ?thesis by (simp add: appendFlaggedContracts_empty)
next
  case False
  show ?thesis
  proof (cases "appendFile_succeeds w (append_calls st)")
    case True
    with False assms show ?thesis by (auto simp: appendFlaggedContracts_ok)
  next
    case f: False
    with False assms show ?thesis by (simp add: appendFlaggedContracts_fails)
  qed
qed

lemma isHighValue_50000_00 [simp]: "isHighValue (example_contract pid ''$50,000.00'')"
  by (simp add: isHighValue_def parse_50000_00 MIN_CONTRACT_VALUE_def)

lemma isHighValue_49999_99 [simp]: "\<not> isHighValue (example_contract pid ''$49,999.99'')"
  by (simp add: isHighValue_def parse_49999_99 MIN_CONTRACT_VALUE_def)

text \<open>
  Claim C10. The two sides of \<open>processedIds\<close> use different fields. The filter asks
  whether the \<open>procurement_id\<close> of the source record is in the set; the load and a
  successful append put the \<open>contract_id\<close> of flagged contracts into it. So after
  a successful append a high-value record that was new is kept out of later selections
  exactly when its \<open>procurement_id\<close> is the \<open>contract_id\<close> of one of the results
  appended, and nothing makes the classifier answer with that identifier: there is a
  run of the append after which the record it was meant to mark is still selected.
\<close>

theorem dedup_keys_differ:
  "(contract \<in> set (filterHighValueContracts ids contracts) \<longleftrightarrow>
      contract \<in> set contracts \<and> isHighValue contract \<and> procurement_id contract \<notin> ids)
   \<and> processedIds (loadProcessedIds st) =
       processedIds st \<union>
       (case log_file st of None \<Rightarrow> {}
        | Some content \<Rightarrow> contract_id ` set (readable_prefix content))
   \<and> (appendFlaggedContracts w flagged st = (Inr (), st') \<longrightarrow>
        processedIds st' = processedIds st \<union> contract_id ` set flagged)
   \<and> (appendFlaggedContracts w flagged st = (Inr (), st') \<and> isHighValue contract
        \<and> procurement_id contract \<notin> processedIds st \<longrightarrow>
        (contract \<notin> set (filterHighValueContracts (processedIds st') [contract]) \<longleftrightarrow>
           procurement_id contract \<in> contract_id ` set flagged))
   \<and> (\<exists>w0 st0 st1 f c. appendFlaggedContracts w0 [f] st0 = (Inr (), st1)
        \<and> contract_id f \<noteq> procurement_id c
        \<and> c \<in> set (filterHighValueContracts (processedIds st1) [c]))"
proof -
  have a: "contract \<in> set (filterHighValueContracts ids contracts) \<longleftrightarrow>
      contract \<in> set contracts \<and> isHighValue contract \<and> procurement_id contract \<notin> ids"
    by (rule filterHighValueContracts_mem)
  have b: "processedIds (loadProcessedIds st) =
       processedIds st \<union>
       (case log_file st of None \<Rightarrow> {}
        | Some content \<Rightarrow> contract_id ` set (readable_prefix content))"
    by (simp add: loadProcessedIds_ids loaded_ids_def)
  have c: "appendFlaggedContracts w flagged st = (Inr (), st') \<longrightarrow>
        processedIds st' = processedIds st \<union> contract_id ` set flagged"
    using appendFlaggedContracts_ids by blast
  have d: "appendFlaggedContracts w flagged st = (Inr (), st') \<and> isHighValue contract
        \<and> procurement_id contract \<notin> processedIds st \<longrightarrow>
        (contract \<notin> set (filterHighValueContracts (processedIds st') [contract]) \<longleftrightarrow>
           procurement_id contract \<in> contract_id ` set flagged)"
    using c by (auto simp: filterHighValueContracts_mem)
  have "appendFlaggedContracts quiet_world [example_flagged ''2024-0001'']
          (fresh_process None)
        = (Inr (), (emit [AppendFile (map JSON_stringify [example_flagged ''2024-0001''])]
                      (fresh_process None))
              \<lparr>append_calls := Suc (append_calls (fresh_process None)),
               log_file := Some ((case log_file (fresh_process None) of None \<Rightarrow> []
                                   | Some old \<Rightarrow> old)
                                   @ map JSON_stringify [example_flagged ''2024-0001'']),
               processedIds := processedIds (fresh_process None)
                                 \<union> contract_id ` set [example_flagged ''2024-0001'']\<rparr>)"
    by (rule appendFlaggedContracts_ok) simp_all
  moreover have "contract_id (example_flagged ''2024-0001'')
                   \<noteq> procurement_id (example_contract ''PW-24-0001'' ''$50,000.00'')"
    by simp
  moreover have "example_contract ''PW-24-0001'' ''$50,000.00''
      \<in> set (filterHighValueContracts
               (processedIds ((emit [AppendFile (map JSON_stringify [example_flagged ''2024-0001''])]
                      (fresh_process None))
              \<lparr>append_calls := Suc (append_calls (fresh_process None)),
               log_file := Some ((case log_file (fresh_process None) of None \<Rightarrow> []
                                   | Some old \<Rightarrow> old)
                                   @ map JSON_stringify [example_flagged ''2024-0001'']),
               processedIds := processedIds (fresh_process None)
                                 \<union> contract_id ` set [example_flagged ''2024-0001'']\<rparr>))
               [example_contract ''PW-24-0001'' ''$50,000.00''])"
    by (simp add: filterHighValueContracts_mem)
  ultimately have e: "\<exists>w0 st0 st1 f c. appendFlaggedContracts w0 [f] st0 = (Inr (), st1)
        \<and> contract_id f \<noteq> procurement_id c
        \<and> c \<in> set (filterHighValueContracts (processedIds st1) [c])"
    by blast
  from a b c d e show ?thesis by blast
qed


theorem dedup_keys_differ_witness:
  "\<exists>st'. appendFlaggedContracts quiet_world [example_flagged ''PW-24-0001'']
            (fresh_process None) = (Inr (), st')
     \<and> processedIds st' = {''PW-24-0001''}
     \<and> example_contract ''PW-24-0001'' ''$50,000.00''
         \<notin> set (filterHighValueContracts (processedIds st')
                  [example_contract ''PW-24-0001'' ''$50,000.00''])
     \<and> example_contract ''PW-24-0002'' ''$50,000.00''
         \<in> set (filterHighValueContracts (processedIds st')
                  [example_contract ''PW-24-0002'' ''$50,000.00''])"
proof -
  obtain st' where ok: "appendFlaggedContracts quiet_world [example_flagged ''PW-24-0001'']
            (fresh_process None) = (Inr (), st')"
    by (simp add: appendFlaggedContracts_ok)
  have ids: "processedIds st' = {''PW-24-0001''}"
    using dedup_keys_differ [of "example_contract ''PW-24-0001'' ''$50,000.00''" "{}" "[]"
        "fresh_process None" quiet_world "[example_flagged ''PW-24-0001'']" st'] ok
    by simp
  have marked: "example_contract ''PW-24-0001'' ''$50,000.00''
         \<notin> set (filterHighValueContracts (processedIds st')
                  [example_contract ''PW-24-0001'' ''$50,000.00''])"
    using dedup_keys_differ [of "example_contract ''PW-24-0001'' ''$50,000.00''" "{}" "[]"
        "fresh_process None" quiet_world "[example_flagged ''PW-24-0001'']" st',
        THEN conjunct2, THEN conjunct2, THEN conjunct2, THEN conjunct1] ok
    by simp
  have other: "example_contract ''PW-24-0002'' ''$50,000.00''
         \<in> set (filterHighValueContracts (processedIds st')
                  [example_contract ''PW-24-0002'' ''$50,000.00''])"
    using dedup_keys_differ [of "example_contract ''PW-24-0002'' ''$50,000.00''" "{}" "[]"
        "fresh_process None" quiet_world "[example_flagged ''PW-24-0001'']" st',
        THEN conjunct2, THEN conjunct2, THEN conjunct2, THEN conjunct1] ok
    by simp
  from ok ids marked other show ?thesis by blast
qed

subsection \<open>Retries\<close>

lemma getContractsWithRetry_returned:
  assumes "try_fetch (fetch w (fetch_calls st) off) = Returned data"
  shows "getContractsWithRetry w off retries st =
           (Inr data, emit [Request off] (st\<lparr>fetch_calls := Suc (fetch_calls st)\<rparr>))"
  using assms by (subst getContractsWithRetry.simps) (simp add: Let_def)

lemma getContractsWithRetry_escaped:
  assumes "try_fetch (fetch w (fetch_calls st) off) = Escaped e"
  shows "getContractsWithRetry w off retries st =
           (Inl e, emit [Request off] (st\<lparr>fetch_calls := Suc (fetch_calls st)\<rparr>))"
  using assms by (subst getContractsWithRetry.simps) (simp add: Let_def)

lemma getContractsWithRetry_retry:
  assumes "try_fetch (fetch w (fetch_calls st) off) = Caught e" "retries < MAX_RETRIES"
  shows "getContractsWithRetry w off retries st =
           getContractsWithRetry w off (Suc retries)
             (emit [Request off, LogRetry (Suc retries) e,
                    Sleep (RATE_LIMIT_DELAY * Suc retries)]
                (st\<lparr>fetch_calls := Suc (fetch_calls st)\<rparr>))"
  using assms
  by (subst getContractsWithRetry.simps) (simp add: Let_def emit_def)

lemma getContractsWithRetry_exhausted:
  assumes "try_fetch (fetch w (fetch_calls st) off) = Caught e" "\<not> retries < MAX_RETRIES"
  shows "getContractsWithRetry w off retries st =
           (Inl e, emit [Request off] (st\<lparr>fetch_calls := Suc (fetch_calls st)\<rparr>))"
  using assms by (subst getContractsWithRetry.simps) (simp add: Let_def)

lemma getContractsWithRetry_frame:
  "getContractsWithRetry w off retries st = (res, st') \<Longrightarrow>
     log_file st' = log_file st \<and> processedIds st' = processedIds st
     \<and> create_calls st' = create_calls st \<and> append_calls st' = append_calls st"
proof (induction "MAX_RETRIES - retries" arbitrary: retries st)
  case 0
  then have ex: "\<not> retries < MAX_RETRIES" by simp
  show ?case
  proof (cases "try_fetch (fetch w (fetch_calls st) off)")
    case (Returned data)
    with "0.prems" show ?thesis by (auto simp: getContractsWithRetry_returned)
  next
    case (Caught e)
    with "0.prems" ex show ?thesis by (auto simp: getContractsWithRetry_exhausted)
  next
    case (Escaped e)
    with "0.prems" show ?thesis by (auto simp: getContractsWithRetry_escaped)
  qed
next
  case (Suc n)
  then have lt: "retries < MAX_RETRIES" and n: "n = MAX_RETRIES - Suc retries" by simp_all
  show ?case
  proof (cases "try_fetch (fetch w (fetch_calls st) off)")
    case (Returned data)
    with Suc.prems show ?thesis by (auto simp: getContractsWithRetry_returned)
  next
    case (Caught e)
    from Suc.prems have "getContractsWithRetry w off (Suc retries)
             (emit [Request off, LogRetry (Suc retries) e,
                    Sleep (RATE_LIMIT_DELAY * Suc retries)]
                (st\<lparr>fetch_calls := Suc (fetch_calls st)\<rparr>)) = (res, st')"
      by (simp add: getContractsWithRetry_retry [OF Caught lt])
    from Suc.hyps(1) [OF n this] show ?thesis by simp
  next
    case (Escaped e)
    with Suc.prems show ?thesis by (auto simp: getContractsWithRetry_escaped)
  qed
qed


lemma try_completion_not_escaped [simp]: "try_completion c \<noteq> Escaped e"
  by (cases c rule: try_completion.cases) simp_all

lemma analyzeContractsWithGPT_returned:
  assumes "try_completion (create w (create_calls st) contracts) = Returned flagged"
  shows "analyzeContractsWithGPT w contracts retries st =
           (flagged, emit [LogAnalyzing (length contracts) (firstId contracts), Create contracts]
                       (st\<lparr>create_calls := Suc (create_calls st)\<rparr>))"
  using assms by (subst analyzeContractsWithGPT.simps) (simp add: Let_def)

lemma analyzeContractsWithGPT_retry:
  assumes "try_completion (create w (create_calls st) contracts) = Caught e"
    "retries < MAX_RETRIES"
  shows "analyzeContractsWithGPT w contracts retries st =
           analyzeContractsWithGPT w contracts (Suc retries)
             (emit [LogAnalyzing (length contracts) (firstId contracts), Create contracts,
                    LogOpenAIRetry (Suc retries) e, Sleep (RATE_LIMIT_DELAY * Suc retries)]
                (st\<lparr>create_calls := Suc (create_calls st)\<rparr>))"
  using assms
  by (subst analyzeContractsWithGPT.simps) (simp add: Let_def emit_def)

lemma analyzeContractsWithGPT_exhausted:
  assumes "try_completion (create w (create_calls st) contracts) = Caught e"
    "\<not> retries < MAX_RETRIES"
  shows "analyzeContractsWithGPT w contracts retries st =
           ([], emit [LogAnalyzing (length contracts) (firstId contracts), Create contracts,
                      LogErrorAnalyzing e]
                  (st\<lparr>create_calls := Suc (create_calls st)\<rparr>))"
  using assms
  by (subst analyzeContractsWithGPT.simps) (simp add: Let_def emit_def)

lemma analyzeContractsWithGPT_frame:
  "analyzeContractsWithGPT w contracts retries st = (flagged, st') \<Longrightarrow>
     log_file st' = log_file st \<and> processedIds st' = processedIds st
     \<and> fetch_calls st' = fetch_calls st \<and> append_calls st' = append_calls st
     \<and> create_calls st < create_calls st'"
proof (induction "MAX_RETRIES - retries" arbitrary: retries st)
  case 0
  then have ex: "\<not> retries < MAX_RETRIES" by simp
  show ?case
  proof (cases "try_completion (create w (create_calls st) contracts)")
    case (Returned fl)
    with "0.prems" show ?thesis by (auto simp: analyzeContractsWithGPT_returned)
  next
    case (Caught e)
    with "0.prems" ex show ?thesis by (auto simp: analyzeContractsWithGPT_exhausted)
  next
    case (Escaped e)
    then show ?thesis by simp
  qed
next
  case (Suc n)
  then have lt: "retries < MAX_RETRIES" and n: "n = MAX_RETRIES - Suc retries" by simp_all
  show ?case
  proof (cases "try_completion (create w (create_calls st) contracts)")
    case (Returned fl)
    with Suc.prems show ?thesis by (auto simp: analyzeContractsWithGPT_returned)
  next
    case (Caught e)
    from Suc.prems have "analyzeContractsWithGPT w contracts (Suc retries)
             (emit [LogAnalyzing (length contracts) (firstId contracts), Create contracts,
                    LogOpenAIRetry (Suc retries) e, Sleep (RATE_LIMIT_DELAY * Suc retries)]
                (st\<lparr>create_calls := Suc (create_calls st)\<rparr>)) = (flagged, st')"
      by (simp add: analyzeContractsWithGPT_retry [OF Caught lt])
    from Suc.hyps(1) [OF n this] show ?thesis by simp
  next
    case (Escaped e)
    then show ?thesis by simp
  qed
qed

lemma try_completion_Returned_nonempty:
  "try_completion c = Returned flagged \<Longrightarrow> flagged \<noteq> [] \<Longrightarrow> c = Contracts (Some flagged)"
  by (cases c rule: try_completion.cases) simp_all

lemma analyzeContractsWithGPT_result:
  "fst (analyzeContractsWithGPT w contracts retries st) = []
   \<or> (\<exists>k. k \<le> MAX_RETRIES - retries
        \<and> create w (create_calls st + k) contracts
            = Contracts (Some (fst (analyzeContractsWithGPT w contracts retries st))))"
proof (induction "MAX_RETRIES - retries" arbitrary: retries st)
  case 0
  then have ex: "\<not> retries < MAX_RETRIES" by simp
  show ?case
  proof (cases "try_completion (create w (create_calls st) contracts)")
    case (Returned fl)
    then show ?thesis
      using try_completion_Returned_nonempty [OF Returned]
      by (cases "fl = []") (auto simp: analyzeContractsWithGPT_returned intro: exI [of _ 0])
  next
    case (Caught e)
    with ex show ?thesis by (simp add: analyzeContractsWithGPT_exhausted)
  next
    case (Escaped e)
    then show ?thesis by simp
  qed
next
  case (Suc n)
  then have lt: "retries < MAX_RETRIES" and n: "n = MAX_RETRIES - Suc retries" by simp_all
  show ?case
  proof (cases "try_completion (create w (create_calls st) contracts)")
    case (Returned fl)
    then show ?thesis
      using try_completion_Returned_nonempty [OF Returned]
      by (cases "fl = []") (auto simp: analyzeContractsWithGPT_returned intro: exI [of _ 0])
  next
    case (Caught e)
    let ?st2 = "emit [LogAnalyzing (length contracts) (firstId contracts), Create contracts,
                    LogOpenAIRetry (Suc retries) e, Sleep (RATE_LIMIT_DELAY * Suc retries)]
                (st\<lparr>create_calls := Suc (create_calls st)\<rparr>)"
    have eq: "analyzeContractsWithGPT w contracts retries st
                = analyzeContractsWithGPT w contracts (Suc retries) ?st2"
      by (rule analyzeContractsWithGPT_retry [OF Caught lt])
    from Suc.hyps(1) [OF n, of ?st2]
    show ?thesis
    proof
      assume "fst (analyzeContractsWithGPT w contracts (Suc retries) ?st2) = []"
      then show ?thesis by (simp add: eq)
    next
      assume "\<exists>k. k \<le> MAX_RETRIES - Suc retries
        \<and> create w (create_calls ?st2 + k) contracts
            = Contracts (Some (fst (analyzeContractsWithGPT w contracts (Suc retries) ?st2)))"
      then obtain k where k: "k \<le> MAX_RETRIES - Suc retries"
        "create w (create_calls ?st2 + k) contracts
            = Contracts (Some (fst (analyzeContractsWithGPT w contracts (Suc retries) ?st2)))"
        by blast
      have "Suc k \<le> MAX_RETRIES - retries" using k(1) lt by simp
      moreover have "create w (create_calls st + Suc k) contracts
            = Contracts (Some (fst (analyzeContractsWithGPT w contracts retries st)))"
        using k(2) by (simp add: eq)
      ultimately show ?thesis by blast
    qed
  next
    case (Escaped e)
    then show ?thesis by simp
  qed
qed



text \<open>
  Claim C4. A page request that fails twice and is then served makes exactly three
  requests, waits \<open>1 * RATE_LIMIT_DELAY\<close> before the first retry and
  \<open>2 * RATE_LIMIT_DELAY\<close> before the second, and returns the page of the third
  request. A request fails when \<open>fetch\<close> rejects or the status is not \<open>ok\<close>: the
  outcomes that the \<open>try\<close> block catches. In general the retry numbered
  \<open>retries + 1\<close> waits \<open>(retries + 1) * RATE_LIMIT_DELAY\<close>.
\<close>

theorem backoff_schedule:
  "(try_fetch (fetch w (fetch_calls st) off) = Caught e1
    \<and> try_fetch (fetch w (fetch_calls st + 1) off) = Caught e2
    \<and> fetch w (fetch_calls st + 2) off = Body page \<longrightarrow>
      (\<exists>st'. getContractsWithRetry w off 0 st = (Inr page, st')
         \<and> fetch_calls st' = fetch_calls st + 3
         \<and> trace st' = trace st @
              [Request off, LogRetry 1 e1, Sleep (1 * RATE_LIMIT_DELAY),
               Request off, LogRetry 2 e2, Sleep (2 * RATE_LIMIT_DELAY),
               Request off]))
   \<and> (try_fetch (fetch w (fetch_calls st) off) = Caught e \<and> retries < MAX_RETRIES \<longrightarrow>
        getContractsWithRetry w off retries st =
          getContractsWithRetry w off (retries + 1)
            (emit [Request off, LogRetry (retries + 1) e,
                   Sleep ((retries + 1) * RATE_LIMIT_DELAY)]
               (st\<lparr>fetch_calls := fetch_calls st + 1\<rparr>)))"
proof (intro conjI impI)
  assume a: "try_fetch (fetch w (fetch_calls st) off) = Caught e1
    \<and> try_fetch (fetch w (fetch_calls st + 1) off) = Caught e2
    \<and> fetch w (fetch_calls st + 2) off = Body page"
  let ?st1 = "emit [Request off, LogRetry (Suc 0) e1, Sleep (RATE_LIMIT_DELAY * Suc 0)]
                (st\<lparr>fetch_calls := Suc (fetch_calls st)\<rparr>)"
  let ?st2 = "emit [Request off, LogRetry (Suc (Suc 0)) e2, Sleep (RATE_LIMIT_DELAY * Suc (Suc 0))]
                (?st1\<lparr>fetch_calls := Suc (fetch_calls ?st1)\<rparr>)"
  let ?st3 = "emit [Request off] (?st2\<lparr>fetch_calls := Suc (fetch_calls ?st2)\<rparr>)"
  have r0: "getContractsWithRetry w off 0 st = getContractsWithRetry w off (Suc 0) ?st1"
    using a by (intro getContractsWithRetry_retry) (simp_all add: MAX_RETRIES_def)
  have r1: "getContractsWithRetry w off (Suc 0) ?st1 = getContractsWithRetry w off (Suc (Suc 0)) ?st2"
    using a by (intro getContractsWithRetry_retry) (simp_all add: MAX_RETRIES_def)
  have r2: "getContractsWithRetry w off (Suc (Suc 0)) ?st2 = (Inr page, ?st3)"
    using a by (intro getContractsWithRetry_returned) simp
  have "getContractsWithRetry w off 0 st = (Inr page, ?st3)"
    using r0 r1 r2 by simp
  moreover have "fetch_calls ?st3 = fetch_calls st + 3"
    by (simp add: emit_def)
  moreover have "trace ?st3 = trace st @
              [Request off, LogRetry 1 e1, Sleep (1 * RATE_LIMIT_DELAY),
               Request off, LogRetry 2 e2, Sleep (2 * RATE_LIMIT_DELAY),
               Request off]"
    by (simp add: emit_def numeral_2_eq_2)
  ultimately show "\<exists>st'. getContractsWithRetry w off 0 st = (Inr page, st')
         \<and> fetch_calls st' = fetch_calls st + 3
         \<and> trace st' = trace st @
              [Request off, LogRetry 1 e1, Sleep (1 * RATE_LIMIT_DELAY),
               Request off, LogRetry 2 e2, Sleep (2 * RATE_LIMIT_DELAY),
               Request off]"
    by blast
next
  assume a: "try_fetch (fetch w (fetch_calls st) off) = Caught e \<and> retries < MAX_RETRIES"
  then show "getContractsWithRetry w off retries st =
          getContractsWithRetry w off (retries + 1)
            (emit [Request off, LogRetry (retries + 1) e,
                   Sleep ((retries + 1) * RATE_LIMIT_DELAY)]
               (st\<lparr>fetch_calls := fetch_calls st + 1\<rparr>))"
    by (simp add: getContractsWithRetry_retry mult.commute)
qed

lemma flaky_world_simps [simp]:
  "fetch flaky_world k off =
     (if k = 0 then FetchRejects
      else if k = 1 then ResponseNotOk 503
      else Body (one_page_source [example_contract ''PW-24-0001'' ''$50,000.00''] off))"
  "create flaky_world = create quiet_world"
  "appendFile_succeeds flaky_world = appendFile_succeeds quiet_world"
  by (simp_all add: flaky_world_def)

theorem backoff_schedule_witness:
  "\<exists>st'. getContractsWithRetry flaky_world 0 0 (fresh_process None)
           = (Inr (example_page [example_contract ''PW-24-0001'' ''$50,000.00'']), st')
     \<and> fetch_calls st' = 3
     \<and> trace st' = [Request 0, LogRetry 1 NetworkError, Sleep 1000,
                     Request 0, LogRetry 2 (HttpError 503), Sleep 2000,
                     Request 0]"
  using backoff_schedule [of flaky_world "fresh_process None" 0 NetworkError "HttpError 503"
      "example_page [example_contract ''PW-24-0001'' ''$50,000.00'']" NetworkError 0]
  by (simp add: one_page_source_def RATE_LIMIT_DELAY_def)

lemma eager_world_simps [simp]:
  "fetch eager_world = fetch quiet_world"
  "create eager_world k cs =
     Contracts (Some [example_flagged ''PW-24-0001'', example_flagged ''PW-24-0002''])"
  "appendFile_succeeds eager_world = appendFile_succeeds quiet_world"
  by (simp_all add: eager_world_def)

lemma eager_world_classify:
  "analyzeContractsWithGPT eager_world contracts 0 st =
     ([example_flagged ''PW-24-0001'', example_flagged ''PW-24-0002''],
      emit [LogAnalyzing (length contracts) (firstId contracts), Create contracts]
        (st\<lparr>create_calls := Suc (create_calls st)\<rparr>))"
  by (rule analyzeContractsWithGPT_returned) simp

text \<open>
  Claim C9 as stated fails: sent one candidate, a classifier that answers with two
  flagged contracts has both returned.
\<close>

theorem classify_length_counterexample:
  "length [example_contract ''PW-24-0001'' ''$50,000.00''] = 1
   \<and> length (fst (analyzeContractsWithGPT eager_world
                    [example_contract ''PW-24-0001'' ''$50,000.00''] 0 (fresh_process None))) = 2"
  by (simp add: eager_world_classify)

text \<open>
  Claim C9, as the code has it. What \<open>analyzeContractsWithGPT\<close> returns is the
  empty sequence or, as it stands, the \<open>contracts\<close> array of the answer to one of its
  at most \<open>1 + MAX_RETRIES\<close> calls. The number of candidates sent is not compared
  with it: some answers are returned that are longer than the candidates.
\<close>

theorem classify_returns_answer:
  "(fst (analyzeContractsWithGPT w contracts 0 st) = []
    \<or> (\<exists>k. k \<le> MAX_RETRIES
         \<and> create w (create_calls st + k) contracts
             = Contracts (Some (fst (analyzeContractsWithGPT w contracts 0 st)))))
   \<and> (\<exists>w0 cs st0. length cs < length (fst (analyzeContractsWithGPT w0 cs 0 st0)))"
proof
  show "fst (analyzeContractsWithGPT w contracts 0 st) = []
    \<or> (\<exists>k. k \<le> MAX_RETRIES
         \<and> create w (create_calls st + k) contracts
             = Contracts (Some (fst (analyzeContractsWithGPT w contracts 0 st))))"
    using analyzeContractsWithGPT_result [of w contracts 0 st] by simp
next
  have "length [example_contract ''PW-24-0001'' ''$50,000.00'']
          < length (fst (analyzeContractsWithGPT eager_world
                      [example_contract ''PW-24-0001'' ''$50,000.00''] 0 (fresh_process None)))"
    by (simp add: eager_world_classify)
  then show "\<exists>w0 cs st0. length cs < length (fst (analyzeContractsWithGPT w0 cs 0 st0))"
    by blast
qed

theorem classify_returns_answer_witness:
  "fst (analyzeContractsWithGPT eager_world [example_contract ''PW-24-0001'' ''$50,000.00''] 0
          (fresh_process None))
     = [example_flagged ''PW-24-0001'', example_flagged ''PW-24-0002'']
   \<and> (\<exists>k. k \<le> 3
        \<and> create eager_world k [example_contract ''PW-24-0001'' ''$50,000.00'']
            = Contracts (Some (fst (analyzeContractsWithGPT eager_world
                 [example_contract ''PW-24-0001'' ''$50,000.00''] 0 (fresh_process None)))))"
  using classify_returns_answer [of eager_world
      "[example_contract ''PW-24-0001'' ''$50,000.00'']" "fresh_process None"]
  by (simp add: eager_world_classify MAX_RETRIES_def)


subsection \<open>One turn of the loop\<close>

lemma next_batch_simps [simp]:
  "offset (next_batch r) = offset r + BATCH_SIZE"
  "batchNumber (next_batch r) = batchNumber r + 1"
  "totalContracts (next_batch r) = totalContracts r"
  "totalHighValue (next_batch r) = totalHighValue r"
  "totalFlagged (next_batch r) = totalFlagged r"
  by (simp_all add: next_batch_def)

lemma analyze_page_break:
  assumes "\<not> success data \<or> records (result data) = []"
  shows "analyze_page w r data st = (Break, emit [LogNoMore] st)"
  using assms by (auto simp: analyze_page_def)

lemma analyze_page_no_candidates:
  assumes "success data" "records (result data) \<noteq> []"
    "filterHighValueContracts (processedIds st) (records (result data)) = []"
  shows "analyze_page w r data st =
           (Continue (next_batch r),
            emit [LogNoNewHighValue (batchNumber r), Sleep RATE_LIMIT_DELAY] st)"
  using assms by (simp add: analyze_page_def)

lemma analyze_page_no_flags:
  assumes "success data" "records (result data) \<noteq> []"
    "cands = filterHighValueContracts (processedIds st) (records (result data))"
    "cands \<noteq> []"
    "analyzeContractsWithGPT w cands 0 st = ([], st1)"
  shows "analyze_page w r data st =
           (Continue (next_batch
              (r\<lparr>totalContracts := totalContracts r + length (records (result data)),
                 totalHighValue := totalHighValue r + length cands,
                 totalFlagged := totalFlagged r + 0\<rparr>)),
            emit [LogBatchResults (batchNumber r) (length (records (result data)))
                    (length cands) 0,
                  LogRunningTotals (totalContracts r + length (records (result data)))
                    (totalHighValue r + length cands) (totalFlagged r + 0),
                  Sleep RATE_LIMIT_DELAY] st1)"
  using assms by (simp add: analyze_page_def Let_def)

lemma analyze_page_append_ok:
  assumes "success data" "records (result data) \<noteq> []"
    "cands = filterHighValueContracts (processedIds st) (records (result data))"
    "cands \<noteq> []"
    "analyzeContractsWithGPT w cands 0 st = (flagged, st1)" "flagged \<noteq> []"
    "appendFlaggedContracts w flagged st1 = (Inr u, st2)"
  shows "analyze_page w r data st =
           (Continue (next_batch
              (r\<lparr>totalContracts := totalContracts r + length (records (result data)),
                 totalHighValue := totalHighValue r + length cands,
                 totalFlagged := totalFlagged r + length flagged\<rparr>)),
            emit [LogBatchResults (batchNumber r) (length (records (result data)))
                    (length cands) (length flagged),
                  LogRunningTotals (totalContracts r + length (records (result data)))
                    (totalHighValue r + length cands) (totalFlagged r + length flagged),
                  Sleep RATE_LIMIT_DELAY] st2)"
  using assms by (simp add: analyze_page_def Let_def)

lemma analyze_page_append_fails:
  assumes "success data" "records (result data) \<noteq> []"
    "cands = filterHighValueContracts (processedIds st) (records (result data))"
    "cands \<noteq> []"
    "analyzeContractsWithGPT w cands 0 st = (flagged, st1)" "flagged \<noteq> []"
    "appendFlaggedContracts w flagged st1 = (Inl e, st2)"
  shows "analyze_page w r data st = (Thrown e, st2)"
  using assms by (simp add: analyze_page_def Let_def)

lemma appendFlaggedContracts_error:
  "appendFlaggedContracts w flagged st = (Inl e, st') \<Longrightarrow>
     e = AppendFileError \<and> flagged \<noteq> [] \<and> \<not> appendFile_succeeds w (append_calls st)
     \<and> log_file st' = log_file st \<and> processedIds st' = processedIds st
     \<and> append_calls st' = Suc (append_calls st) \<and> create_calls st' = create_calls st
     \<and> fetch_calls st' = fetch_calls st"
  by (cases "flagged = []"; cases "appendFile_succeeds w (append_calls st)")
    (auto simp: appendFlaggedContracts_empty appendFlaggedContracts_ok
      appendFlaggedContracts_fails)

lemma appendFlaggedContracts_success:
  "appendFlaggedContracts w flagged st = (Inr u, st') \<Longrightarrow> flagged \<noteq> [] \<Longrightarrow>
     appendFile_succeeds w (append_calls st)
     \<and> log_file st' = Some ((case log_file st of None \<Rightarrow> [] | Some old \<Rightarrow> old)
                              @ map JSON_stringify flagged)
     \<and> append_calls st' = Suc (append_calls st) \<and> create_calls st' = create_calls st
     \<and> fetch_calls st' = fetch_calls st"
  by (cases "appendFile_succeeds w (append_calls st)")
    (auto simp: appendFlaggedContracts_ok appendFlaggedContracts_fails)

text \<open>What a turn that goes on to the next one has done.\<close>

lemma analyze_page_Continue:
  assumes "analyze_page w r data st = (Continue r', st')"
    and "cands = filterHighValueContracts (processedIds st) (records (result data))"
    and "flagged = fst (analyzeContractsWithGPT w cands 0 st)"
  shows "success data \<and> records (result data) \<noteq> []
     \<and> offset r' = offset r + BATCH_SIZE \<and> batchNumber r' = batchNumber r + 1
     \<and> (cands = [] \<longrightarrow>
          totalContracts r' = totalContracts r \<and> totalHighValue r' = totalHighValue r
          \<and> totalFlagged r' = totalFlagged r
          \<and> create_calls st' = create_calls st \<and> append_calls st' = append_calls st
          \<and> log_file st' = log_file st)
     \<and> (cands \<noteq> [] \<longrightarrow>
          totalContracts r' = totalContracts r + length (records (result data))
          \<and> totalHighValue r' = totalHighValue r + length cands
          \<and> totalFlagged r' = totalFlagged r + length flagged
          \<and> create_calls st < create_calls st'
          \<and> append_calls st' = (if flagged = [] then append_calls st else append_calls st + 1)
          \<and> log_file st' = (if flagged = [] then log_file st
               else Some ((case log_file st of None \<Rightarrow> [] | Some old \<Rightarrow> old)
                            @ map JSON_stringify flagged)))"
proof -
  have "success data \<and> records (result data) \<noteq> []"
  proof (rule ccontr)
    assume "\<not> (success data \<and> records (result data) \<noteq> [])"
    then have "\<not> success data \<or> records (result data) = []" by blast
    from analyze_page_break [OF this, of w r st] assms(1) show False by simp
  qed
  then have nb: "success data" "records (result data) \<noteq> []" by simp_all
  show ?thesis
  proof (cases "cands = []")
    case True
    with assms nb show ?thesis by (auto simp: analyze_page_no_candidates)
  next
    case False
    obtain st1 where g: "analyzeContractsWithGPT w cands 0 st = (flagged, st1)"
      using assms(3) by (cases "analyzeContractsWithGPT w cands 0 st") simp
    note fr = analyzeContractsWithGPT_frame [OF g]
    show ?thesis
    proof (cases "flagged = []")
      case True
      from analyze_page_no_flags [OF nb assms(2) False g [unfolded True], of r] assms(1) True False nb fr
      show ?thesis by auto
    next
      case nf: False
      obtain res st2 where ap: "appendFlaggedContracts w flagged st1 = (res, st2)"
        by (cases "appendFlaggedContracts w flagged st1")
      show ?thesis
      proof (cases res)
        case (Inl e)
        from analyze_page_append_fails [OF nb assms(2) False g nf ap [unfolded Inl], of r] assms(1)
        show ?thesis by simp
      next
        case (Inr u)
        note ok = appendFlaggedContracts_success [OF ap [unfolded Inr] nf]
        from analyze_page_append_ok [OF nb assms(2) False g nf ap [unfolded Inr], of r] assms(1)
          nf False nb fr ok
        show ?thesis by auto
      qed
    qed
  qed
qed


lemma analyze_iteration_fetch_error:
  assumes "getContractsWithRetry w (offset r) 0
             (emit [LogProcessingBatch (batchNumber r) (offset r)] st) = (Inl e, st0)"
  shows "analyze_iteration w r st =
           (Thrown e, emit [LogErrorProcessing (batchNumber r) e,
                            LogLastSuccessfulOffset (offset r), LogUseThisOffset] st0)"
  using assms by (simp add: analyze_iteration_def analyze_try_def)

lemma analyze_iteration_page:
  assumes "getContractsWithRetry w (offset r) 0
             (emit [LogProcessingBatch (batchNumber r) (offset r)] st) = (Inr data, st0)"
  shows "analyze_iteration w r st =
           (case analyze_page w r data st0 of
              (Thrown e, st1) \<Rightarrow>
                (Thrown e, emit [LogErrorProcessing (batchNumber r) e,
                                 LogLastSuccessfulOffset (offset r), LogUseThisOffset] st1)
            | (Break, st1) \<Rightarrow> (Break, st1)
            | (Continue r', st1) \<Rightarrow> (Continue r', st1))"
  using assms by (simp add: analyze_iteration_def analyze_try_def)

lemma analyze_iteration_Continue:
  assumes "analyze_iteration w r st = (Continue r', st')"
  shows "\<exists>data st0.
           getContractsWithRetry w (offset r) 0
             (emit [LogProcessingBatch (batchNumber r) (offset r)] st) = (Inr data, st0)
           \<and> analyze_page w r data st0 = (Continue r', st')"
proof -
  obtain res st0 where f: "getContractsWithRetry w (offset r) 0
             (emit [LogProcessingBatch (batchNumber r) (offset r)] st) = (res, st0)"
    by (cases "getContractsWithRetry w (offset r) 0
             (emit [LogProcessingBatch (batchNumber r) (offset r)] st)")
  show ?thesis
  proof (cases res)
    case (Inl e)
    from analyze_iteration_fetch_error [OF f [unfolded Inl]] assms show ?thesis by simp
  next
    case (Inr data)
    from analyze_iteration_page [OF f [unfolded Inr]] assms
    have "analyze_page w r data st0 = (Continue r', st')"
      by (auto split: prod.splits iteration.splits)
    with f Inr show ?thesis by blast
  qed
qed

text \<open>
  Claim C8, as the code has it. A turn of the loop that goes on to the next one has
  advanced the offset by exactly \<open>BATCH_SIZE\<close>, which is 100, and the batch number by
  one. The three totals are updated inside the branch for a batch with candidates only:
  after a batch without candidates all three are as before (the records of the page are
  not counted), and neither the classifier nor \<open>appendFile\<close> has been called. After a
  batch with candidates the totals have grown by the numbers of records, candidates and
  flagged contracts, the classifier has been called, and \<open>appendFile\<close> has been called
  once if the classifier flagged something and not at all otherwise.
\<close>

theorem offset_advances_totals_gated:
  "analyze_iteration w r st = (Continue r', st') \<longrightarrow>
     (\<exists>data st0 cands flagged.
        getContractsWithRetry w (offset r) 0
          (emit [LogProcessingBatch (batchNumber r) (offset r)] st) = (Inr data, st0)
      \<and> cands = filterHighValueContracts (processedIds st) (records (result data))
      \<and> flagged = fst (analyzeContractsWithGPT w cands 0 st0)
      \<and> offset r' = offset r + 100 \<and> batchNumber r' = batchNumber r + 1
      \<and> (cands = [] \<longrightarrow>
           totalContracts r' = totalContracts r \<and> totalHighValue r' = totalHighValue r
           \<and> totalFlagged r' = totalFlagged r
           \<and> create_calls st' = create_calls st \<and> append_calls st' = append_calls st)
      \<and> (cands \<noteq> [] \<longrightarrow>
           totalContracts r' = totalContracts r + length (records (result data))
           \<and> totalHighValue r' = totalHighValue r + length cands
           \<and> totalFlagged r' = totalFlagged r + length flagged
           \<and> create_calls st < create_calls st'
           \<and> append_calls st' =
               (if flagged = [] then append_calls st else append_calls st + 1)))"
proof
  assume c: "analyze_iteration w r st = (Continue r', st')"
  from analyze_iteration_Continue [OF c] obtain data st0 where
    f: "getContractsWithRetry w (offset r) 0
          (emit [LogProcessingBatch (batchNumber r) (offset r)] st) = (Inr data, st0)"
    and p: "analyze_page w r data st0 = (Continue r', st')"
    by blast
  from getContractsWithRetry_frame [OF f]
  have fr: "processedIds st0 = processedIds st" "create_calls st0 = create_calls st"
    "append_calls st0 = append_calls st"
    by simp_all
  from analyze_page_Continue [OF p refl refl] fr f
  show "\<exists>data st0 cands flagged.
        getContractsWithRetry w (offset r) 0
          (emit [LogProcessingBatch (batchNumber r) (offset r)] st) = (Inr data, st0)
      \<and> cands = filterHighValueContracts (processedIds st) (records (result data))
      \<and> flagged = fst (analyzeContractsWithGPT w cands 0 st0)
      \<and> offset r' = offset r + 100 \<and> batchNumber r' = batchNumber r + 1
      \<and> (cands = [] \<longrightarrow>
           totalContracts r' = totalContracts r \<and> totalHighValue r' = totalHighValue r
           \<and> totalFlagged r' = totalFlagged r
           \<and> create_calls st' = create_calls st \<and> append_calls st' = append_calls st)
      \<and> (cands \<noteq> [] \<longrightarrow>
           totalContracts r' = totalContracts r + length (records (result data))
           \<and> totalHighValue r' = totalHighValue r + length cands
           \<and> totalFlagged r' = totalFlagged r + length flagged
           \<and> create_calls st < create_calls st'
           \<and> append_calls st' =
               (if flagged = [] then append_calls st else append_calls st + 1))"
    by (intro exI [of _ data] exI [of _ st0]) (simp add: BATCH_SIZE_def)
qed


lemma sample_world_simps [simp]:
  "fetch sample_world k off =
     Body (one_page_source [example_contract ''PW-24-0001'' ''$50,000.00''] off)"
  "create sample_world k cs = Contracts (Some [example_flagged ''PW-24-0001''])"
  "appendFile_succeeds sample_world k"
  by (simp_all add: sample_world_def)

lemma low_value_world_simps [simp]:
  "fetch low_value_world k off =
     Body (one_page_source [example_contract ''PW-24-0003'' ''$49,999.99''] off)"
  "create low_value_world = create sample_world"
  "appendFile_succeeds low_value_world = appendFile_succeeds sample_world"
  by (simp_all add: low_value_world_def)

lemma one_page_source_simps [simp]:
  "success (one_page_source cs off)"
  "records (result (one_page_source cs off)) = (if off = 0 then cs else [])"
  by (simp_all add: one_page_source_def example_page_def)

lemma initial_run_simps [simp]:
  "offset (initial_run s) = s"
  "totalContracts (initial_run s) = 0"
  "totalHighValue (initial_run s) = 0"
  "totalFlagged (initial_run s) = 0"
  "batchNumber (initial_run s) = 1"
  by (simp_all add: initial_run_def)

lemmas turn_eval =
  analyze_iteration_def analyze_try_def analyze_page_def getContractsWithRetry.simps
  analyzeContractsWithGPT.simps appendFlaggedContracts_def appendFile_def Let_def
  filterHighValueContracts_def isNew_def

lemma low_value_turn:
  "fst (analyze_iteration low_value_world (initial_run 0) (fresh_process None))
     = Continue (next_batch (initial_run 0))"
  by (simp add: turn_eval)

lemma sample_turn:
  "fst (analyze_iteration sample_world (initial_run 0) (fresh_process None))
     = Continue (next_batch ((initial_run 0)\<lparr>totalContracts := 1, totalHighValue := 1, totalFlagged := 1\<rparr>))"
  "append_calls (snd (analyze_iteration sample_world (initial_run 0) (fresh_process None))) = 1"
  "create_calls (snd (analyze_iteration sample_world (initial_run 0) (fresh_process None))) = 1"
  "log_file (snd (analyze_iteration sample_world (initial_run 0) (fresh_process None)))
     = Some [Rec (example_flagged ''PW-24-0001'')]"
  "processedIds (snd (analyze_iteration sample_world (initial_run 0) (fresh_process None)))
     = {''PW-24-0001''}"
  by (simp_all add: turn_eval JSON_stringify_def)


theorem offset_advances_totals_gated_witness:
  "(\<exists>r' st'. analyze_iteration sample_world (initial_run 0) (fresh_process None)
                = (Continue r', st')
       \<and> offset r' = 100 \<and> batchNumber r' = 2
       \<and> totalContracts r' = 1 \<and> totalHighValue r' = 1 \<and> totalFlagged r' = 1
       \<and> append_calls st' = 1)
   \<and> (\<exists>r' st'. analyze_iteration low_value_world (initial_run 0) (fresh_process None)
                = (Continue r', st')
       \<and> offset r' = 100 \<and> batchNumber r' = 2
       \<and> totalContracts r' = 0 \<and> totalHighValue r' = 0 \<and> totalFlagged r' = 0
       \<and> create_calls st' = 0 \<and> append_calls st' = 0)"
proof
  obtain r' st' where it: "analyze_iteration sample_world (initial_run 0) (fresh_process None)
      = (Continue r', st')"
    using sample_turn(1) by (cases "analyze_iteration sample_world (initial_run 0)
      (fresh_process None)") simp
  from offset_advances_totals_gated [of sample_world "initial_run 0" "fresh_process None" r' st']
    it
  have "offset r' = 100 \<and> batchNumber r' = 2
       \<and> totalContracts r' = 1 \<and> totalHighValue r' = 1 \<and> totalFlagged r' = 1
       \<and> append_calls st' = 1"
    by (auto simp: getContractsWithRetry.simps analyzeContractsWithGPT.simps
        filterHighValueContracts_def isNew_def Let_def)
  with it show "\<exists>r' st'. analyze_iteration sample_world (initial_run 0) (fresh_process None)
                = (Continue r', st')
       \<and> offset r' = 100 \<and> batchNumber r' = 2
       \<and> totalContracts r' = 1 \<and> totalHighValue r' = 1 \<and> totalFlagged r' = 1
       \<and> append_calls st' = 1"
    by blast
next
  obtain r' st' where it: "analyze_iteration low_value_world (initial_run 0) (fresh_process None)
      = (Continue r', st')"
    using low_value_turn by (cases "analyze_iteration low_value_world (initial_run 0)
      (fresh_process None)") simp
  from offset_advances_totals_gated [of low_value_world "initial_run 0" "fresh_process None"
      r' st'] it
  have "offset r' = 100 \<and> batchNumber r' = 2
       \<and> totalContracts r' = 0 \<and> totalHighValue r' = 0 \<and> totalFlagged r' = 0
       \<and> create_calls st' = 0 \<and> append_calls st' = 0"
    by (auto simp: getContractsWithRetry.simps filterHighValueContracts_def isNew_def Let_def)
  with it show "\<exists>r' st'. analyze_iteration low_value_world (initial_run 0) (fresh_process None)
                = (Continue r', st')
       \<and> offset r' = 100 \<and> batchNumber r' = 2
       \<and> totalContracts r' = 0 \<and> totalHighValue r' = 0 \<and> totalFlagged r' = 0
       \<and> create_calls st' = 0 \<and> append_calls st' = 0"
    by blast
qed

text \<open>
  Claim C8 as stated fails: the page served at offset 0 holds one record, below the
  threshold. The turn goes on to offset 100 and the total of contracts is still 0.
\<close>

theorem totals_in_empty_batch_counterexample:
  "fetch low_value_world 0 0
     = Body (one_page_source [example_contract ''PW-24-0003'' ''$49,999.99''] 0)
   \<and> length (records (result
        (one_page_source [example_contract ''PW-24-0003'' ''$49,999.99''] 0))) = 1
   \<and> fst (analyze_iteration low_value_world (initial_run 0) (fresh_process None))
       = Continue \<lparr>offset = 100, totalContracts = 0, totalHighValue = 0, totalFlagged = 0,
                   batchNumber = 2\<rparr>"
  unfolding low_value_turn by (simp add: next_batch_def initial_run_def BATCH_SIZE_def)


subsection \<open>Failures\<close>

lemma garbled_once_world_simps [simp]:
  "fetch garbled_once_world = fetch sample_world"
  "create garbled_once_world k cs =
     (if k = 0 then Unparsable else Contracts (Some [example_flagged ''PW-24-0001'']))"
  "appendFile_succeeds garbled_once_world = appendFile_succeeds sample_world"
  by (simp_all add: garbled_once_world_def)

lemma broken_classifier_world_simps [simp]:
  "fetch broken_classifier_world = fetch sample_world"
  "create broken_classifier_world k cs = (if even k then CreateRejects else Unparsable)"
  "appendFile_succeeds broken_classifier_world = appendFile_succeeds sample_world"
  by (simp_all add: broken_classifier_world_def)





lemma getContractsWithRetry_all_fail:
  "(\<And>k. k \<le> MAX_RETRIES - retries \<Longrightarrow>
        \<exists>e. try_fetch (fetch w (fetch_calls st + k) off) = Caught e) \<Longrightarrow>
   \<exists>e st'. getContractsWithRetry w off retries st = (Inl e, st')
     \<and> try_fetch (fetch w (fetch_calls st + (MAX_RETRIES - retries)) off) = Caught e
     \<and> fetch_calls st' = fetch_calls st + (MAX_RETRIES - retries) + 1"
proof (induction "MAX_RETRIES - retries" arbitrary: retries st)
  case 0
  then have ex: "\<not> retries < MAX_RETRIES" and z: "MAX_RETRIES - retries = 0" by simp_all
  from "0.prems" [of 0] obtain e where
    c: "try_fetch (fetch w (fetch_calls st) off) = Caught e" by auto
  show ?case
    using c by (simp add: getContractsWithRetry_exhausted [OF c ex] z)
next
  case (Suc n)
  then have lt: "retries < MAX_RETRIES" and n: "n = MAX_RETRIES - Suc retries" by simp_all
  from Suc.prems [of 0] obtain e where
    c: "try_fetch (fetch w (fetch_calls st) off) = Caught e" by auto
  let ?st2 = "emit [Request off, LogRetry (Suc retries) e,
                    Sleep (RATE_LIMIT_DELAY * Suc retries)]
                (st\<lparr>fetch_calls := Suc (fetch_calls st)\<rparr>)"
  have "\<exists>e st'. getContractsWithRetry w off (Suc retries) ?st2 = (Inl e, st')
     \<and> try_fetch (fetch w (fetch_calls ?st2 + (MAX_RETRIES - Suc retries)) off) = Caught e
     \<and> fetch_calls st' = fetch_calls ?st2 + (MAX_RETRIES - Suc retries) + 1"
  proof (rule Suc.hyps(1) [OF n])
    fix k assume "k \<le> MAX_RETRIES - Suc retries"
    then have "Suc k \<le> MAX_RETRIES - retries" using lt by simp
    from Suc.prems [OF this]
    show "\<exists>e. try_fetch (fetch w (fetch_calls ?st2 + k) off) = Caught e" by simp
  qed
  then obtain e2 st' where r: "getContractsWithRetry w off (Suc retries) ?st2 = (Inl e2, st')"
    and l: "try_fetch (fetch w (fetch_calls ?st2 + (MAX_RETRIES - Suc retries)) off) = Caught e2"
    and f: "fetch_calls st' = fetch_calls ?st2 + (MAX_RETRIES - Suc retries) + 1"
    by blast
  have idx: "fetch_calls ?st2 + (MAX_RETRIES - Suc retries)
               = fetch_calls st + (MAX_RETRIES - retries)"
    using lt by simp
  have "getContractsWithRetry w off retries st = (Inl e2, st')"
    using r by (simp add: getContractsWithRetry_retry [OF c lt])
  moreover have "try_fetch (fetch w (fetch_calls st + (MAX_RETRIES - retries)) off) = Caught e2"
    using l unfolding idx .
  moreover have "fetch_calls st' = fetch_calls st + (MAX_RETRIES - retries) + 1"
    using f unfolding idx .
  ultimately show ?case by blast
qed

lemma getContractsWithRetry_error:
  "getContractsWithRetry w off retries st = (Inl e, st') \<Longrightarrow>
     (\<forall>k\<le>MAX_RETRIES - retries. \<exists>e'. try_fetch (fetch w (fetch_calls st + k) off) = Caught e')
     \<or> (\<exists>k\<le>MAX_RETRIES - retries. fetch w (fetch_calls st + k) off = BodyRejects
           \<and> e = BodySyntaxError)"
proof (induction "MAX_RETRIES - retries" arbitrary: retries st)
  case 0
  then have ex: "\<not> retries < MAX_RETRIES" and z: "MAX_RETRIES - retries = 0" by simp_all
  show ?case
  proof (cases "fetch w (fetch_calls st) off")
    case FetchRejects
    then show ?thesis by (simp add: z)
  next
    case (ResponseNotOk s)
    then show ?thesis by (simp add: z)
  next
    case BodyRejects
    with "0.prems" show ?thesis by (simp add: z getContractsWithRetry_escaped)
  next
    case (Body data)
    with "0.prems" show ?thesis by (simp add: getContractsWithRetry_returned)
  qed
next
  case (Suc n)
  then have lt: "retries < MAX_RETRIES" and n: "n = MAX_RETRIES - Suc retries" by simp_all
  show ?case
  proof (cases "try_fetch (fetch w (fetch_calls st) off)")
    case (Returned data)
    with Suc.prems show ?thesis by (simp add: getContractsWithRetry_returned)
  next
    case (Escaped e')
    then have b: "fetch w (fetch_calls st) off = BodyRejects" "e' = BodySyntaxError"
      by (cases "fetch w (fetch_calls st) off"; simp)+
    from Suc.prems Escaped have "e = e'" by (simp add: getContractsWithRetry_escaped)
    with b have "\<exists>k\<le>MAX_RETRIES - retries. fetch w (fetch_calls st + k) off = BodyRejects
           \<and> e = BodySyntaxError"
      by (intro exI [of _ 0]) simp
    then show ?thesis ..
  next
    case (Caught e')
    let ?st2 = "emit [Request off, LogRetry (Suc retries) e',
                    Sleep (RATE_LIMIT_DELAY * Suc retries)]
                (st\<lparr>fetch_calls := Suc (fetch_calls st)\<rparr>)"
    from Suc.prems have "getContractsWithRetry w off (Suc retries) ?st2 = (Inl e, st')"
      by (simp add: getContractsWithRetry_retry [OF Caught lt])
    from Suc.hyps(1) [OF n this]
    show ?thesis
    proof
      assume all: "\<forall>k\<le>MAX_RETRIES - Suc retries.
        \<exists>e'. try_fetch (fetch w (fetch_calls ?st2 + k) off) = Caught e'"
      have "\<forall>k\<le>MAX_RETRIES - retries.
        \<exists>e'. try_fetch (fetch w (fetch_calls st + k) off) = Caught e'"
      proof (intro allI impI)
        fix k assume k: "k \<le> MAX_RETRIES - retries"
        show "\<exists>e'. try_fetch (fetch w (fetch_calls st + k) off) = Caught e'"
        proof (cases k)
          case 0
          with Caught show ?thesis by simp
        next
          case (Suc j)
          with k have "j \<le> MAX_RETRIES - Suc retries" by simp
          with all have "\<exists>e'. try_fetch (fetch w (fetch_calls ?st2 + j) off) = Caught e'"
            by blast
          with Suc show ?thesis by simp
        qed
      qed
      then show ?thesis ..
    next
      assume "\<exists>k\<le>MAX_RETRIES - Suc retries.
        fetch w (fetch_calls ?st2 + k) off = BodyRejects \<and> e = BodySyntaxError"
      then obtain k where k: "k \<le> MAX_RETRIES - Suc retries"
        "fetch w (fetch_calls ?st2 + k) off = BodyRejects" "e = BodySyntaxError"
        by blast
      have "Suc k \<le> MAX_RETRIES - retries" using k(1) lt by simp
      moreover have "fetch w (fetch_calls st + Suc k) off = BodyRejects" using k(2) by simp
      ultimately have "\<exists>k\<le>MAX_RETRIES - retries.
        fetch w (fetch_calls st + k) off = BodyRejects \<and> e = BodySyntaxError"
        using k(3) by blast
      then show ?thesis ..
    qed
  qed
qed


lemma getContractsWithRetry_body_rejects:
  "(\<And>k. k < j \<Longrightarrow> \<exists>e. try_fetch (fetch w (fetch_calls st + k) off) = Caught e) \<Longrightarrow>
   retries + j \<le> MAX_RETRIES \<Longrightarrow>
   fetch w (fetch_calls st + j) off = BodyRejects \<Longrightarrow>
   \<exists>st'. getContractsWithRetry w off retries st = (Inl BodySyntaxError, st')
     \<and> fetch_calls st' = fetch_calls st + j + 1"
proof (induction j arbitrary: retries st)
  case 0
  then have "try_fetch (fetch w (fetch_calls st) off) = Escaped BodySyntaxError" by simp
  from getContractsWithRetry_escaped [OF this] show ?case by simp
next
  case (Suc j)
  from Suc.prems(1) [of 0] obtain e where
    c: "try_fetch (fetch w (fetch_calls st) off) = Caught e" by auto
  from Suc.prems(2) have lt: "retries < MAX_RETRIES" by simp
  let ?st2 = "emit [Request off, LogRetry (Suc retries) e,
                    Sleep (RATE_LIMIT_DELAY * Suc retries)]
                (st\<lparr>fetch_calls := Suc (fetch_calls st)\<rparr>)"
  have "\<exists>st'. getContractsWithRetry w off (Suc retries) ?st2 = (Inl BodySyntaxError, st')
     \<and> fetch_calls st' = fetch_calls ?st2 + j + 1"
  proof (rule Suc.IH)
    fix k assume "k < j"
    then have "Suc k < Suc j" by simp
    from Suc.prems(1) [OF this]
    show "\<exists>e. try_fetch (fetch w (fetch_calls ?st2 + k) off) = Caught e" by simp
  next
    show "Suc retries + j \<le> MAX_RETRIES" using Suc.prems(2) by simp
  next
    show "fetch w (fetch_calls ?st2 + j) off = BodyRejects" using Suc.prems(3) by simp
  qed
  then show ?case
    by (simp add: getContractsWithRetry_retry [OF c lt])
qed

lemma analyze_iteration_Thrown_reported:
  assumes "analyze_iteration w r st = (Thrown e, st')"
  shows "\<exists>tr. trace st' = tr @ [LogErrorProcessing (batchNumber r) e,
                                 LogLastSuccessfulOffset (offset r), LogUseThisOffset]"
proof -
  obtain it st1 where t: "analyze_try w r st = (it, st1)"
    by (cases "analyze_try w r st")
  from assms t have "st' = emit [LogErrorProcessing (batchNumber r) e,
                           LogLastSuccessfulOffset (offset r), LogUseThisOffset] st1"
    by (cases it) (simp_all add: analyze_iteration_def)
  then show ?thesis by simp
qed

text \<open>
  Claim C5, as the code has it. When each of the \<open>1 + MAX_RETRIES\<close> requests for a
  page fails, the error of the last one is thrown out of the loop and ends the run, and
  the offset reported last is that of the failed batch. It is not the only error that
  ends the run. An \<open>ok\<close> answer whose body is not JSON, after any number of failed
  requests, is thrown at once: no further request is made. A failure of
  \<open>appendFile\<close>, whenever the classifier has flagged something, is thrown too, with
  \<open>processedIds\<close> as it was. Every error thrown in a turn of the loop ends the run
  and is reported with the offset of its batch. The page request itself throws in those
  two ways only: its retries have run out, or a body was not JSON.
\<close>

theorem fatal_conditions:
  "((\<forall>k\<le>MAX_RETRIES. \<exists>e'. try_fetch (fetch w (fetch_calls st + k) (offset r)) = Caught e')
      \<longrightarrow> (\<exists>e0 st0. analyze_iteration w r st = (Thrown e0, st0)
             \<and> try_fetch (fetch w (fetch_calls st + MAX_RETRIES) (offset r)) = Caught e0
             \<and> fetch_calls st0 = fetch_calls st + MAX_RETRIES + 1
             \<and> (\<exists>tr. trace st0 = tr @ [LogErrorProcessing (batchNumber r) e0,
                                        LogLastSuccessfulOffset (offset r), LogUseThisOffset])
             \<and> analyze_loop (Suc fuel) w r st = Some (Inl e0, st0)))
   \<and> ((\<forall>k<j. \<exists>e'. try_fetch (fetch w (fetch_calls st + k) (offset r)) = Caught e')
       \<and> j \<le> MAX_RETRIES
       \<and> fetch w (fetch_calls st + j) (offset r) = BodyRejects
      \<longrightarrow> (\<exists>st1. analyze_iteration w r st = (Thrown BodySyntaxError, st1)
             \<and> fetch_calls st1 = fetch_calls st + j + 1
             \<and> (\<exists>tr. trace st1 = tr @ [LogErrorProcessing (batchNumber r) BodySyntaxError,
                                        LogLastSuccessfulOffset (offset r), LogUseThisOffset])
             \<and> analyze_loop (Suc fuel) w r st = Some (Inl BodySyntaxError, st1)))
   \<and> (getContractsWithRetry w (offset r) 0
         (emit [LogProcessingBatch (batchNumber r) (offset r)] st) = (Inr data, st2)
       \<and> success data \<and> records (result data) \<noteq> []
       \<and> cands = filterHighValueContracts (processedIds st) (records (result data))
       \<and> cands \<noteq> []
       \<and> fst (analyzeContractsWithGPT w cands 0 st2) \<noteq> []
       \<and> \<not> appendFile_succeeds w (append_calls st)
      \<longrightarrow> (\<exists>st3. analyze_iteration w r st = (Thrown AppendFileError, st3)
             \<and> processedIds st3 = processedIds st
             \<and> (\<exists>tr. trace st3 = tr @ [LogErrorProcessing (batchNumber r) AppendFileError,
                                        LogLastSuccessfulOffset (offset r), LogUseThisOffset])
             \<and> analyze_loop (Suc fuel) w r st = Some (Inl AppendFileError, st3)))
   \<and> (analyze_iteration w r st = (Thrown e, st') \<longrightarrow>
        (\<exists>tr. trace st' = tr @ [LogErrorProcessing (batchNumber r) e,
                                 LogLastSuccessfulOffset (offset r), LogUseThisOffset])
        \<and> analyze_loop (Suc fuel) w r st = Some (Inl e, st'))
   \<and> (getContractsWithRetry w (offset r) 0
         (emit [LogProcessingBatch (batchNumber r) (offset r)] st) = (Inl e, st4) \<longrightarrow>
        (\<forall>k\<le>MAX_RETRIES. \<exists>e'. try_fetch (fetch w (fetch_calls st + k) (offset r)) = Caught e')
        \<or> (e = BodySyntaxError
             \<and> (\<exists>k\<le>MAX_RETRIES. fetch w (fetch_calls st + k) (offset r) = BodyRejects)))"
proof (intro conjI impI)
  assume all: "\<forall>k\<le>MAX_RETRIES. \<exists>e'. try_fetch (fetch w (fetch_calls st + k) (offset r)) = Caught e'"
  let ?st1 = "emit [LogProcessingBatch (batchNumber r) (offset r)] st"
  have "\<exists>e st'. getContractsWithRetry w (offset r) 0 ?st1 = (Inl e, st')
     \<and> try_fetch (fetch w (fetch_calls ?st1 + (MAX_RETRIES - 0)) (offset r)) = Caught e
     \<and> fetch_calls st' = fetch_calls ?st1 + (MAX_RETRIES - 0) + 1"
    using all by (intro getContractsWithRetry_all_fail) simp
  then obtain e0 st1 where f: "getContractsWithRetry w (offset r) 0 ?st1 = (Inl e0, st1)"
    and l: "try_fetch (fetch w (fetch_calls st + MAX_RETRIES) (offset r)) = Caught e0"
    and c: "fetch_calls st1 = fetch_calls st + MAX_RETRIES + 1"
    by auto
  let ?st0 = "emit [LogErrorProcessing (batchNumber r) e0,
                    LogLastSuccessfulOffset (offset r), LogUseThisOffset] st1"
  have it: "analyze_iteration w r st = (Thrown e0, ?st0)"
    by (rule analyze_iteration_fetch_error [OF f])
  moreover have "fetch_calls ?st0 = fetch_calls st + MAX_RETRIES + 1" using c by simp
  moreover have "\<exists>tr. trace ?st0 = tr @ [LogErrorProcessing (batchNumber r) e0,
                                        LogLastSuccessfulOffset (offset r), LogUseThisOffset]"
    by simp
  moreover have "analyze_loop (Suc fuel) w r st = Some (Inl e0, ?st0)"
    using it by simp
  ultimately show "\<exists>e0 st0. analyze_iteration w r st = (Thrown e0, st0)
             \<and> try_fetch (fetch w (fetch_calls st + MAX_RETRIES) (offset r)) = Caught e0
             \<and> fetch_calls st0 = fetch_calls st + MAX_RETRIES + 1
             \<and> (\<exists>tr. trace st0 = tr @ [LogErrorProcessing (batchNumber r) e0,
                                        LogLastSuccessfulOffset (offset r), LogUseThisOffset])
             \<and> analyze_loop (Suc fuel) w r st = Some (Inl e0, st0)"
    using l by blast
next
  assume a: "(\<forall>k<j. \<exists>e'. try_fetch (fetch w (fetch_calls st + k) (offset r)) = Caught e')
       \<and> j \<le> MAX_RETRIES
       \<and> fetch w (fetch_calls st + j) (offset r) = BodyRejects"
  let ?st1 = "emit [LogProcessingBatch (batchNumber r) (offset r)] st"
  have "\<exists>st'. getContractsWithRetry w (offset r) 0 ?st1 = (Inl BodySyntaxError, st')
     \<and> fetch_calls st' = fetch_calls ?st1 + j + 1"
    using a by (intro getContractsWithRetry_body_rejects) simp_all
  then obtain st0 where f: "getContractsWithRetry w (offset r) 0 ?st1 = (Inl BodySyntaxError, st0)"
    and c: "fetch_calls st0 = fetch_calls st + j + 1"
    by auto
  let ?st' = "emit [LogErrorProcessing (batchNumber r) BodySyntaxError,
                    LogLastSuccessfulOffset (offset r), LogUseThisOffset] st0"
  have it: "analyze_iteration w r st = (Thrown BodySyntaxError, ?st')"
    by (rule analyze_iteration_fetch_error [OF f])
  moreover have "fetch_calls ?st' = fetch_calls st + j + 1" using c by simp
  moreover have "\<exists>tr. trace ?st' = tr @ [LogErrorProcessing (batchNumber r) BodySyntaxError,
                                        LogLastSuccessfulOffset (offset r), LogUseThisOffset]"
    by simp
  moreover have "analyze_loop (Suc fuel) w r st = Some (Inl BodySyntaxError, ?st')"
    using it by simp
  ultimately show "\<exists>st1. analyze_iteration w r st = (Thrown BodySyntaxError, st1)
             \<and> fetch_calls st1 = fetch_calls st + j + 1
             \<and> (\<exists>tr. trace st1 = tr @ [LogErrorProcessing (batchNumber r) BodySyntaxError,
                                        LogLastSuccessfulOffset (offset r), LogUseThisOffset])
             \<and> analyze_loop (Suc fuel) w r st = Some (Inl BodySyntaxError, st1)"
    by blast
next
  assume a: "getContractsWithRetry w (offset r) 0
         (emit [LogProcessingBatch (batchNumber r) (offset r)] st) = (Inr data, st2)
       \<and> success data \<and> records (result data) \<noteq> []
       \<and> cands = filterHighValueContracts (processedIds st) (records (result data))
       \<and> cands \<noteq> []
       \<and> fst (analyzeContractsWithGPT w cands 0 st2) \<noteq> []
       \<and> \<not> appendFile_succeeds w (append_calls st)"
  then have f: "getContractsWithRetry w (offset r) 0
         (emit [LogProcessingBatch (batchNumber r) (offset r)] st) = (Inr data, st2)"
    and sd: "success data" and ne: "records (result data) \<noteq> []"
    and c: "cands = filterHighValueContracts (processedIds st) (records (result data))"
    and cne: "cands \<noteq> []"
    and fl: "fst (analyzeContractsWithGPT w cands 0 st2) \<noteq> []"
    and fail: "\<not> appendFile_succeeds w (append_calls st)"
    by blast+
  note fr0 = getContractsWithRetry_frame [OF f]
  obtain flagged st5 where g: "analyzeContractsWithGPT w cands 0 st2 = (flagged, st5)"
    by (cases "analyzeContractsWithGPT w cands 0 st2")
  with fl have nf: "flagged \<noteq> []" by simp
  note fr1 = analyzeContractsWithGPT_frame [OF g]
  have c': "cands = filterHighValueContracts (processedIds st2) (records (result data))"
    using c fr0 by simp
  have fail': "\<not> appendFile_succeeds w (append_calls st5)"
    using fail fr0 fr1 by simp
  let ?st6 = "(emit [AppendFile (map JSON_stringify flagged)] st5)
                \<lparr>append_calls := Suc (append_calls st5)\<rparr>"
  have ap: "appendFlaggedContracts w flagged st5 = (Inl AppendFileError, ?st6)"
    by (rule appendFlaggedContracts_fails [OF nf fail'])
  have p: "analyze_page w r data st2 = (Thrown AppendFileError, ?st6)"
    by (rule analyze_page_append_fails [OF sd ne c' cne g nf ap])
  let ?st3 = "emit [LogErrorProcessing (batchNumber r) AppendFileError,
                    LogLastSuccessfulOffset (offset r), LogUseThisOffset] ?st6"
  have it: "analyze_iteration w r st = (Thrown AppendFileError, ?st3)"
    using analyze_iteration_page [OF f] p by simp
  moreover have "processedIds ?st3 = processedIds st" using fr0 fr1 by simp
  moreover have "\<exists>tr. trace ?st3 = tr @ [LogErrorProcessing (batchNumber r) AppendFileError,
                                        LogLastSuccessfulOffset (offset r), LogUseThisOffset]"
    by simp
  moreover have "analyze_loop (Suc fuel) w r st = Some (Inl AppendFileError, ?st3)"
    using it by simp
  ultimately show "\<exists>st3. analyze_iteration w r st = (Thrown AppendFileError, st3)
             \<and> processedIds st3 = processedIds st
             \<and> (\<exists>tr. trace st3 = tr @ [LogErrorProcessing (batchNumber r) AppendFileError,
                                        LogLastSuccessfulOffset (offset r), LogUseThisOffset])
             \<and> analyze_loop (Suc fuel) w r st = Some (Inl AppendFileError, st3)"
    by blast
next
  assume t: "analyze_iteration w r st = (Thrown e, st')"
  from analyze_iteration_Thrown_reported [OF t]
  show "\<exists>tr. trace st' = tr @ [LogErrorProcessing (batchNumber r) e,
                                 LogLastSuccessfulOffset (offset r), LogUseThisOffset]" .
next
  assume t: "analyze_iteration w r st = (Thrown e, st')"
  then show "analyze_loop (Suc fuel) w r st = Some (Inl e, st')" by simp
next
  assume f: "getContractsWithRetry w (offset r) 0
         (emit [LogProcessingBatch (batchNumber r) (offset r)] st) = (Inl e, st4)"
  from getContractsWithRetry_error [OF f]
  show "(\<forall>k\<le>MAX_RETRIES. \<exists>e'. try_fetch (fetch w (fetch_calls st + k) (offset r)) = Caught e')
        \<or> (e = BodySyntaxError
             \<and> (\<exists>k\<le>MAX_RETRIES. fetch w (fetch_calls st + k) (offset r) = BodyRejects))"
    by auto
qed


lemma offline_world_simps [simp]:
  "fetch offline_world k off = FetchRejects"
  "create offline_world = create quiet_world"
  "appendFile_succeeds offline_world = appendFile_succeeds quiet_world"
  by (simp_all add: offline_world_def)

lemma failing_disk_world_simps [simp]:
  "fetch failing_disk_world = fetch sample_world"
  "create failing_disk_world = create sample_world"
  "\<not> appendFile_succeeds failing_disk_world k"
  by (simp_all add: failing_disk_world_def)

lemma html_body_world_simps [simp]:
  "fetch html_body_world k off = (if k = 0 then ResponseNotOk 502 else BodyRejects)"
  "create html_body_world = create sample_world"
  "appendFile_succeeds html_body_world = appendFile_succeeds sample_world"
  by (simp_all add: html_body_world_def)

theorem fatal_conditions_witness:
  "(\<exists>st'. analyze_iteration offline_world (initial_run 200) (fresh_process None)
            = (Thrown NetworkError, st')
      \<and> fetch_calls st' = 4
      \<and> (\<exists>tr. trace st' = tr @ [LogErrorProcessing 1 NetworkError,
                                 LogLastSuccessfulOffset 200, LogUseThisOffset])
      \<and> analyze_loop (Suc 0) offline_world (initial_run 200) (fresh_process None)
          = Some (Inl NetworkError, st'))
   \<and> (\<exists>st'. analyze_iteration html_body_world (initial_run 200) (fresh_process None)
            = (Thrown BodySyntaxError, st')
      \<and> fetch_calls st' = 2
      \<and> (\<exists>tr. trace st' = tr @ [LogErrorProcessing 1 BodySyntaxError,
                                 LogLastSuccessfulOffset 200, LogUseThisOffset])
      \<and> analyze_loop (Suc 0) html_body_world (initial_run 200) (fresh_process None)
          = Some (Inl BodySyntaxError, st'))
   \<and> (\<exists>st'. analyze_iteration failing_disk_world (initial_run 0) (fresh_process None)
            = (Thrown AppendFileError, st')
      \<and> processedIds st' = {}
      \<and> (\<exists>tr. trace st' = tr @ [LogErrorProcessing 1 AppendFileError,
                                 LogLastSuccessfulOffset 0, LogUseThisOffset])
      \<and> analyze_loop (Suc 0) failing_disk_world (initial_run 0) (fresh_process None)
          = Some (Inl AppendFileError, st'))"
proof (intro conjI)
  show "\<exists>st'. analyze_iteration offline_world (initial_run 200) (fresh_process None)
            = (Thrown NetworkError, st')
      \<and> fetch_calls st' = 4
      \<and> (\<exists>tr. trace st' = tr @ [LogErrorProcessing 1 NetworkError,
                                 LogLastSuccessfulOffset 200, LogUseThisOffset])
      \<and> analyze_loop (Suc 0) offline_world (initial_run 200) (fresh_process None)
          = Some (Inl NetworkError, st')"
    using fatal_conditions [of offline_world "fresh_process None" "initial_run 200" 0,
        THEN conjunct1]
    by (simp add: MAX_RETRIES_def)
next
  have "(\<forall>k<1. \<exists>e'. try_fetch (fetch html_body_world (fetch_calls (fresh_process None) + k)
                                (offset (initial_run 200))) = Caught e')
       \<and> 1 \<le> MAX_RETRIES
       \<and> fetch html_body_world (fetch_calls (fresh_process None) + 1)
            (offset (initial_run 200)) = BodyRejects"
    by (simp add: MAX_RETRIES_def)
  from fatal_conditions [of html_body_world "fresh_process None" "initial_run 200" 0 1,
      THEN conjunct2, THEN conjunct1, rule_format, OF this]
  show "\<exists>st'. analyze_iteration html_body_world (initial_run 200) (fresh_process None)
            = (Thrown BodySyntaxError, st')
      \<and> fetch_calls st' = 2
      \<and> (\<exists>tr. trace st' = tr @ [LogErrorProcessing 1 BodySyntaxError,
                                 LogLastSuccessfulOffset 200, LogUseThisOffset])
      \<and> analyze_loop (Suc 0) html_body_world (initial_run 200) (fresh_process None)
          = Some (Inl BodySyntaxError, st')"
    by auto
next
  let ?w = failing_disk_world
  let ?data = "one_page_source [example_contract ''PW-24-0001'' ''$50,000.00''] 0"
  let ?cands = "[example_contract ''PW-24-0001'' ''$50,000.00'']"
  let ?st2 = "snd (getContractsWithRetry ?w 0 0
                     (emit [LogProcessingBatch 1 0] (fresh_process None)))"
  have "getContractsWithRetry ?w (offset (initial_run 0)) 0
         (emit [LogProcessingBatch (batchNumber (initial_run 0)) (offset (initial_run 0))]
            (fresh_process None)) = (Inr ?data, ?st2)
       \<and> success ?data \<and> records (result ?data) \<noteq> []
       \<and> ?cands = filterHighValueContracts (processedIds (fresh_process None))
                     (records (result ?data))
       \<and> ?cands \<noteq> []
       \<and> fst (analyzeContractsWithGPT ?w ?cands 0 ?st2) \<noteq> []
       \<and> \<not> appendFile_succeeds ?w (append_calls (fresh_process None))"
    by (simp add: getContractsWithRetry.simps analyzeContractsWithGPT.simps Let_def
        filterHighValueContracts_def isNew_def)
  from fatal_conditions [of ?w "fresh_process None" "initial_run 0" 0 0 ?data ?st2 ?cands,
      THEN conjunct2, THEN conjunct2, THEN conjunct1, rule_format, OF this]
  show "\<exists>st'. analyze_iteration ?w (initial_run 0) (fresh_process None)
            = (Thrown AppendFileError, st')
      \<and> processedIds st' = {}
      \<and> (\<exists>tr. trace st' = tr @ [LogErrorProcessing 1 AppendFileError,
                                 LogLastSuccessfulOffset 0, LogUseThisOffset])
      \<and> analyze_loop (Suc 0) ?w (initial_run 0) (fresh_process None)
          = Some (Inl AppendFileError, st')"
    by auto
qed

text \<open>
  Claim C5 as stated fails: the first request for the page is served, the classifier
  flags a contract, and the append to the log fails. That error leaves the loop and ends
  the run, although no request for a page has failed.
\<close>

theorem only_fatal_condition_counterexample:
  "fetch failing_disk_world 0 0
     = Body (one_page_source [example_contract ''PW-24-0001'' ''$50,000.00''] 0)
   \<and> fst (analyze_iteration failing_disk_world (initial_run 0) (fresh_process None))
       = Thrown AppendFileError
   \<and> fetch_calls (snd (analyze_iteration failing_disk_world (initial_run 0)
                        (fresh_process None))) = 1
   \<and> map_option fst (analyze (Suc 0) failing_disk_world 0 (fresh_process None))
       = Some (Inl AppendFileError)"
  by (simp add: turn_eval analyze_def loadProcessedIds_def readFile_def)

subsection \<open>Whole runs\<close>
















lemma relabelling_world_simps [simp]:
  "fetch relabelling_world = fetch sample_world"
  "create relabelling_world k cs = Contracts (Some [example_flagged ''2024-0001''])"
  "appendFile_succeeds relabelling_world = appendFile_succeeds sample_world"
  by (simp_all add: relabelling_world_def)

lemma partial_world_simps [simp]:
  "fetch partial_world k off =
     Body (one_page_source [example_contract ''PW-24-0001'' ''$50,000.00'',
                            example_contract ''PW-24-0002'' ''$50,000.00''] off)"
  "create partial_world k cs =
     Contracts (Some (map (\<lambda>c. example_flagged (procurement_id c))
                        (filter (\<lambda>c. procurement_id c = ''PW-24-0001'') cs)))"
  "appendFile_succeeds partial_world k"
  by (simp_all add: partial_world_def)







end
